theory Spec2Isabelle
  imports Complex_Main "HOL-Library.Word"
begin

section \<open>Data model of \<^verbatim>\<open>frontend/app/types/index.ts\<close>\<close>

text \<open>
  Names, keys and dates are only copied and compared for equality by the code, so they are
  \<open>string\<close>s. The request text is different: the handlers call \<^verbatim>\<open>trim()\<close> on it, whose
  result depends on the UTF-16 code units of the text, so it is a list of 16-bit words.
  Values of type \<^verbatim>\<open>Record<string, any>\<close> are association lists of strings; the
  \<^verbatim>\<open>number\<close> fields are counts (\<open>int\<close>) or a fraction (\<open>real\<close>); no modelled
  function computes with them.
\<close>

type_synonym jsstring = "16 word list"

record Employee =
  name :: string
  employee_number :: string
  first_line_support_count :: int
  known_absences :: "string list"
  metadata :: "(string \<times> string) list"

record Schedule =
  date :: string
  first_line_support :: string

record Rules =
  max_days_per_week :: int
  preferred_balance :: real

record BaseResponse =
  thoughts :: string
  original_query :: string
  response :: string
  reasoning :: string

record ScheduleChange =
  employee_name :: string
  target_date :: string
  suggested_replacement :: string

datatype recommendation = approve | deny | discuss

text \<open>
  The union \<^verbatim>\<open>AIResponse\<close> as it is declared: four interfaces over the base shape,
  told apart by the tag \<^verbatim>\<open>type\<close>.
\<close>

datatype AIResponse =
    QuestionResponse BaseResponse
  | OtherResponse BaseResponse
  | ComplaintResponse BaseResponse string
  | ScheduleChangeAnalysis BaseResponse "ScheduleChange list" recommendation

datatype response_type = question | other | complaint | schedulechange

text \<open>
  What a handler is given at run time is an object. An interface names the members an
  object must have, not the members it may have: an object that satisfies
  \<^verbatim>\<open>QuestionResponse\<close> may carry \<^verbatim>\<open>recommendation\<close> and \<^verbatim>\<open>changes\<close> as well.
  The handlers read \<^verbatim>\<open>analysis.recommendation\<close> and \<^verbatim>\<open>analysis.changes\<close> off the
  object without looking at \<^verbatim>\<open>analysis.type\<close>. So the object is a record: the base
  members, the tag, and each further member as an option, \<open>None\<close> for a member the
  object does not have (reading it gives \<^verbatim>\<open>undefined\<close>).
\<close>

record AnalysisObject = BaseResponse +
  type :: response_type
  solution_proposal :: "string option"
  changes :: "ScheduleChange list option"
  recommendation :: "recommendation option"

text \<open>The object of a value of the union: the declared members and no others.\<close>

fun object_of :: "AIResponse \<Rightarrow> AnalysisObject" where
  "object_of (QuestionResponse b) =
     \<lparr>thoughts = thoughts b, original_query = original_query b, response = response b,
      reasoning = reasoning b, type = question, solution_proposal = None,
      changes = None, recommendation = None\<rparr>"
| "object_of (OtherResponse b) =
     \<lparr>thoughts = thoughts b, original_query = original_query b, response = response b,
      reasoning = reasoning b, type = other, solution_proposal = None,
      changes = None, recommendation = None\<rparr>"
| "object_of (ComplaintResponse b p) =
     \<lparr>thoughts = thoughts b, original_query = original_query b, response = response b,
      reasoning = reasoning b, type = complaint, solution_proposal = Some p,
      changes = None, recommendation = None\<rparr>"
| "object_of (ScheduleChangeAnalysis b cs r) =
     \<lparr>thoughts = thoughts b, original_query = original_query b, response = response b,
      reasoning = reasoning b, type = schedulechange, solution_proposal = None,
      changes = Some cs, recommendation = Some r\<rparr>"

text \<open>
  The optional \<^verbatim>\<open>metadata\<close> of a \<^verbatim>\<open>ScheduleChangeRequest\<close> is never set by
  \<^verbatim>\<open>home.tsx\<close> and is left out.
\<close>

record ScheduleChangeRequest =
  request_text :: jsstring

record ScheduleChangeResponse =
  request :: jsstring
  analysis :: AnalysisObject

record SimpleRequest =
  request :: jsstring

record ScheduleWithEmployee = Schedule +
  employee_name :: string

section \<open>The identity join of \<^verbatim>\<open>frontend/app/routes/home.tsx\<close>\<close>

text \<open>
  \<^verbatim>\<open>employees.find((emp) => emp.employee_number === schedule.first_line_support)\<close>:
  the first element that satisfies the test, or \<^verbatim>\<open>undefined\<close>.
\<close>

definition find_employee :: "Employee list \<Rightarrow> Schedule \<Rightarrow> Employee option" where
  "find_employee employees schedule =
     find (\<lambda>emp. employee_number emp = first_line_support schedule) employees"

text \<open>
  The callback of \<^verbatim>\<open>schedulesData.map\<close>: the entry is spread into a new object and
  \<^verbatim>\<open>employee_name\<close> is added. An employee object is always truthy, so the conditional
  only tests whether one was found.
\<close>

definition withName :: "Employee list \<Rightarrow> Schedule \<Rightarrow> ScheduleWithEmployee" where
  "withName employees schedule =
     (let employee = find_employee employees schedule in
      \<lparr>date = date schedule,
       first_line_support = first_line_support schedule,
       employee_name = (case employee of Some emp \<Rightarrow> name emp | None \<Rightarrow> ''Unknown Employee'')\<rparr>)"

text \<open>
  The same \<^verbatim>\<open>schedulesWithNames\<close> expression occurs in \<^verbatim>\<open>test\<close>, \<^verbatim>\<open>apply\<close>,
  \<^verbatim>\<open>loadData\<close>, \<^verbatim>\<open>handleChangeRequest\<close> and \<^verbatim>\<open>handleUserTextRequest\<close>.
\<close>

definition schedulesWithNames :: "Employee list \<Rightarrow> Schedule list \<Rightarrow> ScheduleWithEmployee list" where
  "schedulesWithNames employees schedulesData = map (withName employees) schedulesData"

section \<open>Blank request texts\<close>

text \<open>
  \<^verbatim>\<open>String.prototype.trim\<close> removes the code units of ECMAScript's WhiteSpace and
  LineTerminator productions from both ends of the text: TAB, LF, VT, FF, CR, SP, NBSP,
  the other space separators of Unicode, LS, PS and the byte order mark.
\<close>

definition isWhiteSpace :: "16 word \<Rightarrow> bool" where
  "isWhiteSpace c \<longleftrightarrow>
     c = 0x0009 \<or> c = 0x000A \<or> c = 0x000B \<or> c = 0x000C \<or> c = 0x000D \<or>
     c = 0x0020 \<or> c = 0x00A0 \<or> c = 0x1680 \<or> (0x2000 \<le> c \<and> c \<le> 0x200A) \<or>
     c = 0x2028 \<or> c = 0x2029 \<or> c = 0x202F \<or> c = 0x205F \<or> c = 0x3000 \<or> c = 0xFEFF"

definition trim :: "jsstring \<Rightarrow> jsstring" where
  "trim t = rev (dropWhile isWhiteSpace (rev (dropWhile isWhiteSpace t)))"

text \<open>\<^verbatim>\<open>!changeRequest.trim()\<close>: the empty string is the only falsy string.\<close>

definition blank :: "jsstring \<Rightarrow> bool" where
  "blank t \<longleftrightarrow> trim t = []"

section \<open>The component \<^verbatim>\<open>Home\<close>: state, collaborators and calls\<close>

text \<open>
  The \<^verbatim>\<open>useState\<close> cells that the modelled functions read or write. The cells of the
  translation dialogue (\<^verbatim>\<open>pageText\<close>, \<^verbatim>\<open>language\<close>, \<^verbatim>\<open>isModalOpen\<close>, ...) are
  touched by none of them and are left out.
\<close>

record Home =
  employees :: "Employee list"
  schedules :: "ScheduleWithEmployee list"
  rules :: "Rules option"
  loading :: bool
  error :: "string option"
  changeRequest :: jsstring
  changeResponse :: "ScheduleChangeResponse option"
  requestLoading :: bool
  openModal :: bool

text \<open>The initial values of the cells.\<close>

definition Home_init :: Home where
  "Home_init =
     \<lparr>employees = [], schedules = [], rules = None, loading = True, error = None,
      changeRequest = [], changeResponse = None, requestLoading = False, openModal = False\<rparr>"

datatype js_error = FetchError string

text \<open>
  The module \<^verbatim>\<open>~/api\<close> is imported by \<^verbatim>\<open>home.tsx\<close>; every function of it returns a
  promise, which either resolves with a value (\<open>Inr\<close>) or rejects (\<open>Inl\<close>). The
  functions are parameters of the model. \<open>today\<close> is \<^verbatim>\<open>today.toISOString()\<close> for the
  \<^verbatim>\<open>new Date()\<close> of the render. The values that \<^verbatim>\<open>getDBChange\<close> and
  \<^verbatim>\<open>updateDBChange\<close> resolve with are logged or dropped, hence \<open>unit\<close>.
\<close>

record api =
  today :: string
  fetchEmployees :: "js_error + Employee list"
  fetchSchedules :: "string \<Rightarrow> js_error + Schedule list"
  fetchRules :: "js_error + Rules"
  processScheduleChange :: "ScheduleChangeRequest \<Rightarrow> js_error + ScheduleChangeResponse"
  processTextRequest :: "SimpleRequest \<Rightarrow> js_error + ScheduleChangeResponse"
  getDBChange :: "ScheduleChangeRequest \<Rightarrow> js_error + unit"
  updateDBChange :: "ScheduleChangeRequest \<Rightarrow> js_error + unit"

text \<open>The calls a function makes to the collaborators, in order, with their arguments.\<close>

datatype call =
    Call_fetchEmployees
  | Call_fetchSchedules string
  | Call_fetchRules
  | Call_processScheduleChange ScheduleChangeRequest
  | Call_processTextRequest SimpleRequest
  | Call_getDBChange ScheduleChangeRequest
  | Call_updateDBChange ScheduleChangeRequest

text \<open>
  How an \<^verbatim>\<open>async\<close> function ends: its promise is fulfilled, or an exception left the
  function and the promise is rejected. A run gives the completion, the state after the
  \<^verbatim>\<open>set...\<close> calls made so far, and the collaborator calls.
\<close>

datatype completion = Fulfilled | Rejected js_error

type_synonym run = "completion \<times> Home \<times> call list"

text \<open>\<^verbatim>\<open>date.toISOString().split("T")[0]\<close>, on the ISO text of the date.\<close>

definition formatDate :: "string \<Rightarrow> string" where
  "formatDate isoText = takeWhile (\<lambda>c. c \<noteq> CHR ''T'') isoText"

text \<open>
  The condition of the two handlers:
  \<^verbatim>\<open>recommendation === "approve" && changes && changes.length > 0\<close>. An array is
  truthy, \<^verbatim>\<open>undefined\<close> is not.
\<close>

definition approved :: "AnalysisObject \<Rightarrow> bool" where
  "approved a \<longleftrightarrow>
     recommendation a = Some approve \<and>
     (case changes a of None \<Rightarrow> False | Some cs \<Rightarrow> length cs > 0)"

text \<open>
  The refresh that follows the condition, and that \<^verbatim>\<open>test\<close> and \<^verbatim>\<open>apply\<close> end with:
  fetch the schedules of today's week, join them with the \<^verbatim>\<open>employees\<close> of the render
  the function was created in, and store the result. \<open>s0\<close> is the state of that render,
  \<open>s\<close> the state after the \<^verbatim>\<open>set...\<close> calls so far, \<open>cs\<close> the calls so far.
\<close>

definition refresh :: "api \<Rightarrow> Home \<Rightarrow> Home \<Rightarrow> call list \<Rightarrow> run" where
  "refresh env s0 s cs =
     (case fetchSchedules env (formatDate (today env)) of
        Inl e \<Rightarrow> (Rejected e, s, cs @ [Call_fetchSchedules (formatDate (today env))])
      | Inr schedulesData \<Rightarrow>
          (Fulfilled,
           s\<lparr>schedules := schedulesWithNames (employees s0) schedulesData\<rparr>,
           cs @ [Call_fetchSchedules (formatDate (today env))]))"

section \<open>The functions of \<^verbatim>\<open>Home\<close>\<close>

text \<open>
  \<^verbatim>\<open>test\<close> and \<^verbatim>\<open>apply\<close> have no \<^verbatim>\<open>try\<close>: a rejected call rejects the function,
  before any \<^verbatim>\<open>set...\<close> call.
\<close>

definition test :: "api \<Rightarrow> Home \<Rightarrow> run" where
  "test env s0 =
     (let arg = \<lparr>request_text = changeRequest s0\<rparr> in
      case getDBChange env arg of
        Inl e \<Rightarrow> (Rejected e, s0, [Call_getDBChange arg])
      | Inr data \<Rightarrow> refresh env s0 s0 [Call_getDBChange arg])"

definition apply_fn :: "api \<Rightarrow> Home \<Rightarrow> run" where
  "apply_fn env s0 =
     (let arg = \<lparr>request_text = changeRequest s0\<rparr> in
      case updateDBChange env arg of
        Inl e \<Rightarrow> (Rejected e, s0, [Call_updateDBChange arg])
      | Inr data \<Rightarrow> refresh env s0 s0 [Call_updateDBChange arg])"

text \<open>
  \<^verbatim>\<open>loadData\<close>, the effect of the first render. \<^verbatim>\<open>Promise.all\<close> receives the three
  promises, so the three calls are made whatever their outcome; when one rejects, the
  \<^verbatim>\<open>catch\<close> stores the message of the component and nothing else is stored.
\<close>

definition loadData :: "api \<Rightarrow> Home \<Rightarrow> run" where
  "loadData env s0 =
     (let s1 = s0\<lparr>loading := True\<rparr>;
          cs = [Call_fetchEmployees, Call_fetchSchedules (formatDate (today env)), Call_fetchRules]
      in case (fetchEmployees env, fetchSchedules env (formatDate (today env)), fetchRules env) of
           (Inr employeesData, Inr schedulesData, Inr rulesData) \<Rightarrow>
             (Fulfilled,
              s1\<lparr>employees := employeesData,
                 schedules := schedulesWithNames employeesData schedulesData,
                 rules := Some rulesData,
                 loading := False\<rparr>,
              cs)
         | _ \<Rightarrow>
             (Fulfilled,
              s1\<lparr>error := Some ''Failed to load data. Please try again later.'',
                 loading := False\<rparr>,
              cs))"

text \<open>The \<^verbatim>\<open>try\<close> block of \<^verbatim>\<open>handleChangeRequest\<close>.\<close>

definition handleChangeRequest_try :: "api \<Rightarrow> Home \<Rightarrow> run" where
  "handleChangeRequest_try env s0 =
     (let s1 = s0\<lparr>requestLoading := True, error := None\<rparr>;
          req = \<lparr>request_text = changeRequest s0\<rparr>
      in case processScheduleChange env req of
           Inl e \<Rightarrow> (Rejected e, s1, [Call_processScheduleChange req])
         | Inr resp \<Rightarrow>
             (let s2 = s1\<lparr>changeResponse := Some resp, openModal := True\<rparr> in
              if approved (analysis resp)
              then refresh env s0 s2 [Call_processScheduleChange req]
              else (Fulfilled, s2, [Call_processScheduleChange req])))"

text \<open>The \<^verbatim>\<open>try\<close> block of \<^verbatim>\<open>handleUserTextRequest\<close>.\<close>

definition handleUserTextRequest_try :: "api \<Rightarrow> Home \<Rightarrow> run" where
  "handleUserTextRequest_try env s0 =
     (let s1 = s0\<lparr>requestLoading := True, error := None\<rparr>;
          req = \<lparr>request = changeRequest s0\<rparr>
      in case processTextRequest env req of
           Inl e \<Rightarrow> (Rejected e, s1, [Call_processTextRequest req])
         | Inr resp \<Rightarrow>
             (let s2 = s1\<lparr>changeResponse := Some resp\<rparr> in
              if approved (analysis resp)
              then refresh env s0 s2 [Call_processTextRequest req]
              else (Fulfilled, s2, [Call_processTextRequest req])))"

text \<open>
  The \<^verbatim>\<open>catch\<close> and \<^verbatim>\<open>finally\<close> blocks, the same in both handlers: an exception of the
  \<^verbatim>\<open>try\<close> block is logged and replaced by the message, and \<^verbatim>\<open>requestLoading\<close> is reset.
\<close>

definition catch_finally :: "run \<Rightarrow> run" where
  "catch_finally r =
     (case r of
        (Fulfilled, s, cs) \<Rightarrow> (Fulfilled, s\<lparr>requestLoading := False\<rparr>, cs)
      | (Rejected err, s, cs) \<Rightarrow>
          (Fulfilled,
           s\<lparr>error := Some ''Failed to process schedule change request.'',
             requestLoading := False\<rparr>,
           cs))"

definition handleChangeRequest :: "api \<Rightarrow> Home \<Rightarrow> run" where
  "handleChangeRequest env s0 =
     (if blank (changeRequest s0) then (Fulfilled, s0, [])
      else catch_finally (handleChangeRequest_try env s0))"

definition handleUserTextRequest :: "api \<Rightarrow> Home \<Rightarrow> run" where
  "handleUserTextRequest env s0 =
     (if blank (changeRequest s0) then (Fulfilled, s0, [])
      else catch_finally (handleUserTextRequest_try env s0))"

text \<open>The parts of a run.\<close>

definition completion_of :: "run \<Rightarrow> completion" where
  "completion_of r = fst r"

definition state_of :: "run \<Rightarrow> Home" where
  "state_of r = fst (snd r)"

definition calls_of :: "run \<Rightarrow> call list" where
  "calls_of r = snd (snd r)"

text \<open>Whether a call is a re-fetch of the schedules.\<close>

fun is_fetchSchedules :: "call \<Rightarrow> bool" where
  "is_fetchSchedules (Call_fetchSchedules d) = True"
| "is_fetchSchedules c = False"

section \<open>Decoding an analysis payload\<close>

text \<open>
  Modelled from the spec: the payload that the analysis collaborator returns, as a decoded
  JSON value, and the one error of decoding. An object is the list of its members, looked
  up by key. The module \<^verbatim>\<open>~/api\<close> that receives the payload is missing.
\<close>

datatype json =
    JNull
  | JBool bool
  | JNumber int
  | JString string
  | JArray "json list"
  | JObject "(string \<times> json) list"

datatype decode_error = MalformedResponse

text \<open>
  Modelled from the spec: the validation of the payload of the analysis collaborator. It
  belongs to the module \<^verbatim>\<open>~/api\<close>, which \<^verbatim>\<open>home.tsx\<close> imports and whose source is
  missing; \<^verbatim>\<open>home.tsx\<close> itself uses the value it is given as an \<^verbatim>\<open>AIResponse\<close> and
  validates nothing. The specification (4.2) says: decoding fails with
  \<open>MalformedResponse\<close> if \<^verbatim>\<open>type\<close> is missing or not one of the four known tags, or
  if a \<^verbatim>\<open>schedulechange\<close> payload lacks \<^verbatim>\<open>recommendation\<close> or \<^verbatim>\<open>changes\<close> is not a
  sequence (possibly empty); \<^verbatim>\<open>recommendation\<close> must be one of the three literals;
  unknown extra fields are ignored, and an absent required field is always an error,
  never a default. The required fields are those of the declared variant:
  the four texts of the base shape, \<^verbatim>\<open>solution_proposal\<close> for a complaint, and the three
  texts of each change.
\<close>

definition required_string :: "(string \<times> json) list \<Rightarrow> string \<Rightarrow> string option" where
  "required_string obj k = (case map_of obj k of Some (JString v) \<Rightarrow> Some v | _ \<Rightarrow> None)"

text \<open>
  Modelled from the spec: the shared base shape \<^verbatim>\<open>{thoughts, original_query, response,
  reasoning}\<close> of the missing decoder of \<^verbatim>\<open>~/api\<close>; each member is required.
\<close>

definition decode_base :: "(string \<times> json) list \<Rightarrow> BaseResponse option" where
  "decode_base obj =
     (case (required_string obj ''thoughts'', required_string obj ''original_query'',
            required_string obj ''response'', required_string obj ''reasoning'') of
        (Some t, Some q, Some r, Some g) \<Rightarrow>
          Some \<lparr>thoughts = t, original_query = q, response = r, reasoning = g\<rparr>
      | _ \<Rightarrow> None)"

text \<open>
  Modelled from the spec: \<^verbatim>\<open>recommendation\<close> must be one of the three enumerated
  literals; any other value, or none, is malformed (missing decoder of \<^verbatim>\<open>~/api\<close>).
\<close>

definition decode_recommendation :: "(string \<times> json) list \<Rightarrow> recommendation option" where
  "decode_recommendation obj =
     (case map_of obj ''recommendation'' of
        Some (JString r) \<Rightarrow>
          if r = ''approve'' then Some approve
          else if r = ''deny'' then Some deny
          else if r = ''discuss'' then Some discuss
          else None
      | _ \<Rightarrow> None)"

text \<open>
  Modelled from the spec: one \<^verbatim>\<open>ScheduleChangeItem\<close>
  \<^verbatim>\<open>{employee_name, target_date, suggested_replacement}\<close> (missing decoder of
  \<^verbatim>\<open>~/api\<close>).
\<close>

definition decode_change :: "json \<Rightarrow> ScheduleChange option" where
  "decode_change j =
     (case j of
        JObject obj \<Rightarrow>
          (case (required_string obj ''employee_name'', required_string obj ''target_date'',
                 required_string obj ''suggested_replacement'') of
             (Some n, Some d, Some r) \<Rightarrow>
               Some \<lparr>ScheduleChange.employee_name = n, target_date = d,
                     suggested_replacement = r\<rparr>
           | _ \<Rightarrow> None)
      | _ \<Rightarrow> None)"

text \<open>
  Modelled from the spec: the ordered sequence of changes, possibly empty; one malformed
  item makes the sequence malformed (missing decoder of \<^verbatim>\<open>~/api\<close>).
\<close>

fun decode_all :: "json list \<Rightarrow> ScheduleChange list option" where
  "decode_all [] = Some []"
| "decode_all (j # js) =
     (case (decode_change j, decode_all js) of
        (Some c, Some cs) \<Rightarrow> Some (c # cs)
      | _ \<Rightarrow> None)"

text \<open>
  Modelled from the spec: \<^verbatim>\<open>changes\<close> must be a sequence (missing decoder of
  \<^verbatim>\<open>~/api\<close>).
\<close>

definition decode_changes :: "(string \<times> json) list \<Rightarrow> ScheduleChange list option" where
  "decode_changes obj =
     (case map_of obj ''changes'' of Some (JArray js) \<Rightarrow> decode_all js | _ \<Rightarrow> None)"

text \<open>
  Modelled from the spec: \<^verbatim>\<open>type\<close> is the sole discriminant and must be one of the
  four known tags; members that the variant does not have are ignored (missing decoder of
  \<^verbatim>\<open>~/api\<close>).
\<close>

definition decode_variant :: "(string \<times> json) list \<Rightarrow> AIResponse option" where
  "decode_variant obj =
     (case (map_of obj ''type'', decode_base obj) of
        (Some (JString t), Some b) \<Rightarrow>
          if t = ''question'' then Some (QuestionResponse b)
          else if t = ''other'' then Some (OtherResponse b)
          else if t = ''complaint'' then
            (case required_string obj ''solution_proposal'' of
               Some p \<Rightarrow> Some (ComplaintResponse b p)
             | None \<Rightarrow> None)
          else if t = ''schedulechange'' then
            (case (decode_changes obj, decode_recommendation obj) of
               (Some cs, Some r) \<Rightarrow> Some (ScheduleChangeAnalysis b cs r)
             | _ \<Rightarrow> None)
          else None
      | _ \<Rightarrow> None)"

text \<open>
  Modelled from the spec: decoding narrows a payload into exactly one variant or fails with
  \<open>MalformedResponse\<close> (missing decoder of \<^verbatim>\<open>~/api\<close>).
\<close>

definition decode :: "json \<Rightarrow> decode_error + AIResponse" where
  "decode p =
     (case p of
        JObject obj \<Rightarrow>
          (case decode_variant obj of Some a \<Rightarrow> Inr a | None \<Rightarrow> Inl MalformedResponse)
      | _ \<Rightarrow> Inl MalformedResponse)"

text \<open>The members of the base shape, for sample payloads.\<close>

definition base_members :: "(string \<times> json) list" where
  "base_members =
     [(''thoughts'', JString ''swap''), (''original_query'', JString ''switch my Friday shift''),
      (''response'', JString ''ok''), (''reasoning'', JString ''Carol is free'')]"

section \<open>The branch policy and sample values\<close>

text \<open>
  The branch policy in the words of the specification: the response has type
  \<open>schedulechange\<close>, its recommendation is \<open>approve\<close>, and its list of changes is not
  empty.
\<close>

definition reconcile_policy :: "AnalysisObject \<Rightarrow> bool" where
  "reconcile_policy a \<longleftrightarrow>
     type a = schedulechange \<and>
     recommendation a = Some approve \<and>
     (case changes a of None \<Rightarrow> False | Some cs \<Rightarrow> cs \<noteq> [])"

text \<open>Sample values for the concrete runs below.\<close>

definition alice :: Employee where
  "alice = \<lparr>name = ''Alice'', employee_number = ''E1'', first_line_support_count = 0,
            known_absences = [], metadata = []\<rparr>"

definition friday :: Schedule where
  "friday = \<lparr>date = ''2024-01-05'', first_line_support = ''E1''\<rparr>"

definition saturday :: Schedule where
  "saturday = \<lparr>date = ''2024-01-06'', first_line_support = ''E7''\<rparr>"

definition base0 :: BaseResponse where
  "base0 = \<lparr>thoughts = ''swap'', original_query = ''switch my Friday shift'',
            response = ''ok'', reasoning = ''Carol is free''\<rparr>"

definition change0 :: ScheduleChange where
  "change0 = \<lparr>ScheduleChange.employee_name = ''Bob'', target_date = ''2024-01-05'',
              suggested_replacement = ''Carol''\<rparr>"

definition rules0 :: Rules where
  "rules0 = \<lparr>max_days_per_week = 3, preferred_balance = 0\<rparr>"

text \<open>The response that carries a given object, and the one for a value of the union.\<close>

definition answer_object :: "AnalysisObject \<Rightarrow> ScheduleChangeResponse" where
  "answer_object a = \<lparr>ScheduleChangeResponse.request = [0x68, 0x69], analysis = a\<rparr>"

definition answer :: "AIResponse \<Rightarrow> ScheduleChangeResponse" where
  "answer a = answer_object (object_of a)"

text \<open>
  An object that satisfies \<^verbatim>\<open>QuestionResponse\<close> and also carries a recommendation and
  one change.
\<close>

definition question_with_extras :: AnalysisObject where
  "question_with_extras =
     (object_of (QuestionResponse base0))\<lparr>changes := Some [change0],
        recommendation := Some approve\<rparr>"

text \<open>
  Collaborators with fixed outcomes: \<open>a\<close> for the two analysis calls, \<open>f\<close> for the
  schedules of the week of 2024-01-05, \<open>u\<close> for the two database calls.
\<close>

definition api0 :: "js_error + ScheduleChangeResponse \<Rightarrow> js_error + Schedule list \<Rightarrow>
    js_error + unit \<Rightarrow> api" where
  "api0 a f u =
     \<lparr>today = ''2024-01-05T10:15:30.000Z'',
      fetchEmployees = Inr [alice],
      fetchSchedules = (\<lambda>d. if d = ''2024-01-05'' then f else Inl (FetchError ''404'')),
      fetchRules = Inr rules0,
      processScheduleChange = (\<lambda>r. a),
      processTextRequest = (\<lambda>r. a),
      getDBChange = (\<lambda>r. u),
      updateDBChange = (\<lambda>r. u)\<rparr>"

text \<open>The state after a first load that found Alice only, with a request text typed in.\<close>

definition home0 :: "jsstring \<Rightarrow> Home" where
  "home0 t = Home_init\<lparr>employees := [alice], loading := False, changeRequest := t\<rparr>"

text \<open>Whether a call is the persistence call \<^verbatim>\<open>updateDBChange\<close>.\<close>

fun is_updateDBChange :: "call \<Rightarrow> bool" where
  "is_updateDBChange (Call_updateDBChange r) = True"
| "is_updateDBChange c = False"

text \<open>An employee record whose \<open>name\<close> is the empty string, and one hired later.\<close>

definition nameless :: Employee where
  "nameless = \<lparr>name = [], employee_number = ''E1'', first_line_support_count = 0,
               known_absences = [], metadata = []\<rparr>"

definition erin :: Employee where
  "erin = \<lparr>name = ''Erin'', employee_number = ''E7'', first_line_support_count = 0,
           known_absences = [], metadata = []\<rparr>"

text \<open>
  The state after the first load with the collaborators \<open>env0\<close>, once the text \<open>t\<close> has
  been typed into the request field.
\<close>

definition loaded :: "api \<Rightarrow> jsstring \<Rightarrow> Home" where
  "loaded env0 t = (state_of (loadData env0 Home_init))\<lparr>changeRequest := t\<rparr>"

section \<open>The identity join\<close>

lemma find_employee_None:
  "find_employee emps schedule = None \<longleftrightarrow>
     (\<forall>emp \<in> set emps. employee_number emp \<noteq> first_line_support schedule)"
  by (auto simp: find_employee_def find_None_iff)

lemma find_employee_Some:
  assumes "find_employee emps schedule = Some emp"
  shows "emp \<in> set emps \<and> employee_number emp = first_line_support schedule"
proof -
  from assms obtain i where "i < length emps" "emps ! i = emp"
    "employee_number (emps ! i) = first_line_support schedule"
    by (auto simp: find_employee_def find_Some_iff)
  then show ?thesis by auto
qed

lemma find_employee_unique:
  assumes d: "distinct (map employee_number emps)"
    and e: "e \<in> set emps" "employee_number e = first_line_support schedule"
  shows "find_employee emps schedule = Some e"
proof (cases "find_employee emps schedule")
  case None
  with e show ?thesis by (simp add: find_employee_None)
next
  case (Some emp)
  then have "emp \<in> set emps" "employee_number emp = employee_number e"
    using find_employee_Some e(2) by auto
  with d e(1) have "emp = e"
    by (meson distinct_map inj_onD)
  with Some show ?thesis by simp
qed

lemma withName_fields:
  "date (withName emps schedule) = date schedule"
  "first_line_support (withName emps schedule) = first_line_support schedule"
  by (simp_all add: withName_def Let_def)

lemma withName_found:
  "find_employee emps schedule = Some emp \<Longrightarrow>
     employee_name (withName emps schedule) = name emp"
  by (simp add: withName_def)

lemma withName_not_found:
  "find_employee emps schedule = None \<Longrightarrow>
     employee_name (withName emps schedule) = ''Unknown Employee''"
  by (simp add: withName_def)

lemma schedulesWithNames_nth:
  "i < length entries \<Longrightarrow>
     schedulesWithNames emps entries ! i = withName emps (entries ! i)"
  by (simp add: schedulesWithNames_def)

lemma schedulesWithNames_length:
  "length (schedulesWithNames emps entries) = length entries"
  by (simp add: schedulesWithNames_def)

text \<open>
  C3. With employee numbers a key of the employees (no two emps share one, as the data
  model says), the output for an entry carries the name of the employee whose number is the
  entry's \<open>first_line_support\<close>; on any list of employees, if some employee has that
  number the output carries the name of an employee with that number; if no employee has
  that number, it carries the exact text \<open>Unknown Employee\<close>.
\<close>

theorem joiner_name_or_sentinel:
  assumes "i < length entries"
  shows "(distinct (map employee_number emps) \<longrightarrow>
            (\<forall>e \<in> set emps. employee_number e = first_line_support (entries ! i) \<longrightarrow>
               employee_name (schedulesWithNames emps entries ! i) = name e)) \<and>
         ((\<exists>e \<in> set emps. employee_number e = first_line_support (entries ! i)) \<longrightarrow>
            (\<exists>e \<in> set emps. employee_number e = first_line_support (entries ! i) \<and>
               employee_name (schedulesWithNames emps entries ! i) = name e)) \<and>
         ((\<forall>e \<in> set emps. employee_number e \<noteq> first_line_support (entries ! i)) \<longrightarrow>
            employee_name (schedulesWithNames emps entries ! i) = ''Unknown Employee'')"
proof (intro conjI impI ballI)
  fix e
  assume "distinct (map employee_number emps)" "e \<in> set emps"
    "employee_number e = first_line_support (entries ! i)"
  then have "find_employee emps (entries ! i) = Some e"
    by (rule find_employee_unique)
  with assms show "employee_name (schedulesWithNames emps entries ! i) = name e"
    by (simp add: schedulesWithNames_nth withName_found)
next
  assume "\<exists>e \<in> set emps. employee_number e = first_line_support (entries ! i)"
  then obtain emp where f: "find_employee emps (entries ! i) = Some emp"
    by (cases "find_employee emps (entries ! i)") (auto simp: find_employee_None)
  with assms have "employee_name (schedulesWithNames emps entries ! i) = name emp"
    by (simp add: schedulesWithNames_nth withName_found)
  with find_employee_Some [OF f]
  show "\<exists>e \<in> set emps. employee_number e = first_line_support (entries ! i) \<and>
          employee_name (schedulesWithNames emps entries ! i) = name e"
    by blast
next
  assume "\<forall>e \<in> set emps. employee_number e \<noteq> first_line_support (entries ! i)"
  then have "find_employee emps (entries ! i) = None"
    by (simp add: find_employee_None)
  with assms show "employee_name (schedulesWithNames emps entries ! i) = ''Unknown Employee''"
    by (simp add: schedulesWithNames_nth withName_not_found)
qed

theorem joiner_name_or_sentinel_witness:
  "employee_name (schedulesWithNames [alice] [friday, saturday] ! 0) = ''Alice'' \<and>
   employee_name (schedulesWithNames [alice] [friday, saturday] ! 1) = ''Unknown Employee''"
proof -
  have d: "distinct (map employee_number [alice])" by simp
  have m: "alice \<in> set [alice]" by simp
  have k0: "employee_number alice = first_line_support ([friday, saturday] ! 0)"
    by (simp add: alice_def friday_def)
  have k1: "\<forall>e \<in> set [alice]. employee_number e \<noteq> first_line_support ([friday, saturday] ! 1)"
    by (simp add: alice_def saturday_def)
  have i0: "(0::nat) < length [friday, saturday]" and i1: "(1::nat) < length [friday, saturday]"
    by simp_all
  from joiner_name_or_sentinel [OF i0, of "[alice]"] d m k0
  have "employee_name (schedulesWithNames [alice] [friday, saturday] ! 0) = name alice"
    by blast
  moreover from joiner_name_or_sentinel [OF i1, of "[alice]"] k1
  have "employee_name (schedulesWithNames [alice] [friday, saturday] ! 1) = ''Unknown Employee''"
    by blast
  ultimately show ?thesis by (simp add: alice_def)
qed

text \<open>
  C4. The join returns one output per input entry, in the input's order: the lengths agree,
  and the output at each position is the input entry at that position (same \<open>date\<close>, same
  \<open>first_line_support\<close>) with its name attached.
\<close>

theorem joiner_length_order:
  "length (schedulesWithNames emps entries) = length entries \<and>
   (\<forall>i < length entries.
      schedulesWithNames emps entries ! i = withName emps (entries ! i) \<and>
      date (schedulesWithNames emps entries ! i) = date (entries ! i) \<and>
      first_line_support (schedulesWithNames emps entries ! i) =
        first_line_support (entries ! i))"
  by (simp add: schedulesWithNames_length schedulesWithNames_nth withName_fields)

theorem joiner_length_order_witness:
  "length (schedulesWithNames [alice] [friday, saturday]) = 2 \<and>
   date (schedulesWithNames [alice] [friday, saturday] ! 1) = ''2024-01-06'' \<and>
   first_line_support (schedulesWithNames [alice] [friday, saturday] ! 1) = ''E7''"
proof -
  have i1: "(1::nat) < length [friday, saturday]" by simp
  from joiner_length_order [of "[alice]" "[friday, saturday]"] i1
  have "length (schedulesWithNames [alice] [friday, saturday]) = length [friday, saturday] \<and>
        date (schedulesWithNames [alice] [friday, saturday] ! 1) = date ([friday, saturday] ! 1) \<and>
        first_line_support (schedulesWithNames [alice] [friday, saturday] ! 1) =
          first_line_support ([friday, saturday] ! 1)"
    by blast
  then show ?thesis by (simp add: saturday_def)
qed

section \<open>Blank request texts are ignored\<close>

lemma blank_iff: "blank t \<longleftrightarrow> (\<forall>c \<in> set t. isWhiteSpace c)"
proof
  assume "blank t"
  then have "dropWhile isWhiteSpace (rev (dropWhile isWhiteSpace t)) = []"
    by (simp add: blank_def trim_def)
  then have a: "\<forall>c \<in> set (dropWhile isWhiteSpace t). isWhiteSpace c"
    by (simp add: dropWhile_eq_Nil_conv)
  have "dropWhile isWhiteSpace t = []"
  proof (cases "dropWhile isWhiteSpace t")
    case Nil
    then show ?thesis .
  next
    case (Cons x xs)
    then have "\<not> isWhiteSpace x" by (metis hd_dropWhile list.sel(1) list.discI)
    moreover from Cons a have "isWhiteSpace x" by simp
    ultimately show ?thesis by simp
  qed
  then show "\<forall>c \<in> set t. isWhiteSpace c"
    by (simp add: dropWhile_eq_Nil_conv)
next
  assume "\<forall>c \<in> set t. isWhiteSpace c"
  then show "blank t"
    by (auto simp: blank_def trim_def dest: set_dropWhileD)
qed

text \<open>
  C5. When the request text is empty or consists of white space only, each of the two
  handlers returns at once: its promise is fulfilled (nothing is thrown), no collaborator
  is called (the analysis collaborator in particular), and the state is the state before.
\<close>

theorem blank_request_is_noop:
  assumes "\<forall>c \<in> set (changeRequest s). isWhiteSpace c"
  shows "handleChangeRequest env s = (Fulfilled, s, []) \<and>
         handleUserTextRequest env s = (Fulfilled, s, [])"
  using assms by (simp add: handleChangeRequest_def handleUserTextRequest_def blank_iff)

theorem blank_request_is_noop_witness:
  "handleChangeRequest (api0 (Inr (answer (ScheduleChangeAnalysis base0 [change0] approve)))
       (Inr [friday]) (Inr ())) (home0 [0x20, 0x20, 0x20]) =
     (Fulfilled, home0 [0x20, 0x20, 0x20], []) \<and>
   handleUserTextRequest (api0 (Inr (answer (ScheduleChangeAnalysis base0 [change0] approve)))
       (Inr [friday]) (Inr ())) (home0 [0x20, 0x20, 0x20]) =
     (Fulfilled, home0 [0x20, 0x20, 0x20], []) \<and>
   handleUserTextRequest (api0 (Inr (answer (ScheduleChangeAnalysis base0 [change0] approve)))
       (Inr [friday]) (Inr ())) (home0 []) =
     (Fulfilled, home0 [], [])"
proof -
  have w: "\<forall>c \<in> set (changeRequest (home0 [0x20, 0x20, 0x20])). isWhiteSpace c"
    by (simp add: home0_def isWhiteSpace_def)
  have e: "\<forall>c \<in> set (changeRequest (home0 [])). isWhiteSpace c"
    by (simp add: home0_def)
  from blank_request_is_noop [OF w] blank_request_is_noop [OF e]
  show ?thesis by blast
qed

section \<open>The runs of the two handlers\<close>

lemma policy_implies_approved: "reconcile_policy a \<Longrightarrow> approved a"
  by (auto simp: approved_def reconcile_policy_def split: option.splits)

lemma approved_object_of: "approved (object_of a) \<longleftrightarrow> reconcile_policy (object_of a)"
  by (cases a) (simp_all add: approved_def reconcile_policy_def)

lemma refresh_ok:
  "fetchSchedules env (formatDate (today env)) = Inr sd \<Longrightarrow>
     refresh env s0 s cs =
       (Fulfilled, s\<lparr>schedules := schedulesWithNames (employees s0) sd\<rparr>,
        cs @ [Call_fetchSchedules (formatDate (today env))])"
  by (simp add: refresh_def)

lemma refresh_failed:
  "fetchSchedules env (formatDate (today env)) = Inl e \<Longrightarrow>
     refresh env s0 s cs = (Rejected e, s, cs @ [Call_fetchSchedules (formatDate (today env))])"
  by (simp add: refresh_def)

lemma text_analysis_failed:
  assumes "\<not> blank (changeRequest s)"
    and "processTextRequest env \<lparr>request = changeRequest s\<rparr> = Inl e"
  shows "handleUserTextRequest env s =
           (Fulfilled,
            s\<lparr>error := Some ''Failed to process schedule change request.'',
              requestLoading := False\<rparr>,
            [Call_processTextRequest \<lparr>request = changeRequest s\<rparr>])"
  using assms by (simp add: handleUserTextRequest_def handleUserTextRequest_try_def catch_finally_def)

lemma text_not_approved:
  assumes "\<not> blank (changeRequest s)"
    and "processTextRequest env \<lparr>request = changeRequest s\<rparr> = Inr resp"
    and "\<not> approved (analysis resp)"
  shows "handleUserTextRequest env s =
           (Fulfilled,
            s\<lparr>error := None, changeResponse := Some resp, requestLoading := False\<rparr>,
            [Call_processTextRequest \<lparr>request = changeRequest s\<rparr>])"
  using assms by (simp add: handleUserTextRequest_def handleUserTextRequest_try_def catch_finally_def)

lemma text_refresh_failed:
  assumes "\<not> blank (changeRequest s)"
    and "processTextRequest env \<lparr>request = changeRequest s\<rparr> = Inr resp"
    and "approved (analysis resp)"
    and "fetchSchedules env (formatDate (today env)) = Inl e"
  shows "handleUserTextRequest env s =
           (Fulfilled,
            s\<lparr>changeResponse := Some resp,
              error := Some ''Failed to process schedule change request.'',
              requestLoading := False\<rparr>,
            [Call_processTextRequest \<lparr>request = changeRequest s\<rparr>,
             Call_fetchSchedules (formatDate (today env))])"
  using assms
  by (simp add: handleUserTextRequest_def handleUserTextRequest_try_def catch_finally_def
      refresh_failed)

lemma text_refreshed:
  assumes "\<not> blank (changeRequest s)"
    and "processTextRequest env \<lparr>request = changeRequest s\<rparr> = Inr resp"
    and "approved (analysis resp)"
    and "fetchSchedules env (formatDate (today env)) = Inr sd"
  shows "handleUserTextRequest env s =
           (Fulfilled,
            s\<lparr>error := None, changeResponse := Some resp,
              schedules := schedulesWithNames (employees s) sd,
              requestLoading := False\<rparr>,
            [Call_processTextRequest \<lparr>request = changeRequest s\<rparr>,
             Call_fetchSchedules (formatDate (today env))])"
  using assms
  by (simp add: handleUserTextRequest_def handleUserTextRequest_try_def catch_finally_def
      refresh_ok)

lemma change_analysis_failed:
  assumes "\<not> blank (changeRequest s)"
    and "processScheduleChange env \<lparr>request_text = changeRequest s\<rparr> = Inl e"
  shows "handleChangeRequest env s =
           (Fulfilled,
            s\<lparr>error := Some ''Failed to process schedule change request.'',
              requestLoading := False\<rparr>,
            [Call_processScheduleChange \<lparr>request_text = changeRequest s\<rparr>])"
  using assms by (simp add: handleChangeRequest_def handleChangeRequest_try_def catch_finally_def)

lemma change_not_approved:
  assumes "\<not> blank (changeRequest s)"
    and "processScheduleChange env \<lparr>request_text = changeRequest s\<rparr> = Inr resp"
    and "\<not> approved (analysis resp)"
  shows "handleChangeRequest env s =
           (Fulfilled,
            s\<lparr>error := None, changeResponse := Some resp, openModal := True,
              requestLoading := False\<rparr>,
            [Call_processScheduleChange \<lparr>request_text = changeRequest s\<rparr>])"
  using assms by (simp add: handleChangeRequest_def handleChangeRequest_try_def catch_finally_def)

lemma change_refresh_failed:
  assumes "\<not> blank (changeRequest s)"
    and "processScheduleChange env \<lparr>request_text = changeRequest s\<rparr> = Inr resp"
    and "approved (analysis resp)"
    and "fetchSchedules env (formatDate (today env)) = Inl e"
  shows "handleChangeRequest env s =
           (Fulfilled,
            s\<lparr>changeResponse := Some resp, openModal := True,
              error := Some ''Failed to process schedule change request.'',
              requestLoading := False\<rparr>,
            [Call_processScheduleChange \<lparr>request_text = changeRequest s\<rparr>,
             Call_fetchSchedules (formatDate (today env))])"
  using assms
  by (simp add: handleChangeRequest_def handleChangeRequest_try_def catch_finally_def
      refresh_failed)

lemma change_refreshed:
  assumes "\<not> blank (changeRequest s)"
    and "processScheduleChange env \<lparr>request_text = changeRequest s\<rparr> = Inr resp"
    and "approved (analysis resp)"
    and "fetchSchedules env (formatDate (today env)) = Inr sd"
  shows "handleChangeRequest env s =
           (Fulfilled,
            s\<lparr>error := None, changeResponse := Some resp, openModal := True,
              schedules := schedulesWithNames (employees s) sd,
              requestLoading := False\<rparr>,
            [Call_processScheduleChange \<lparr>request_text = changeRequest s\<rparr>,
             Call_fetchSchedules (formatDate (today env))])"
  using assms
  by (simp add: handleChangeRequest_def handleChangeRequest_try_def catch_finally_def
      refresh_ok)

lemma not_blank_hi: "\<not> blank [0x68, 0x69]"
  by (simp add: blank_iff isWhiteSpace_def)

lemma formatDate_sample: "formatDate ''2024-01-05T10:15:30.000Z'' = ''2024-01-05''"
  by (simp add: formatDate_def)

lemma text_fetches_iff:
  assumes "\<not> blank (changeRequest s)"
    and "processTextRequest env \<lparr>request = changeRequest s\<rparr> = Inr resp"
  shows "(\<exists>c \<in> set (calls_of (handleUserTextRequest env s)). is_fetchSchedules c) \<longleftrightarrow>
           approved (analysis resp)"
proof (cases "approved (analysis resp)")
  case False
  with assms show ?thesis by (simp add: text_not_approved calls_of_def)
next
  case True
  with assms show ?thesis
    by (cases "fetchSchedules env (formatDate (today env))")
      (simp_all add: text_refresh_failed text_refreshed calls_of_def)
qed

lemma change_fetches_iff:
  assumes "\<not> blank (changeRequest s)"
    and "processScheduleChange env \<lparr>request_text = changeRequest s\<rparr> = Inr resp"
  shows "(\<exists>c \<in> set (calls_of (handleChangeRequest env s)). is_fetchSchedules c) \<longleftrightarrow>
           approved (analysis resp)"
proof (cases "approved (analysis resp)")
  case False
  with assms show ?thesis by (simp add: change_not_approved calls_of_def)
next
  case True
  with assms show ?thesis
    by (cases "fetchSchedules env (formatDate (today env))")
      (simp_all add: change_refresh_failed change_refreshed calls_of_def)
qed

section \<open>When the schedules are refreshed\<close>

text \<open>
  C1. The claim is that a handler re-fetches and re-joins only for a response of type
  \<open>schedulechange\<close> with recommendation \<open>approve\<close> and a non-empty list of changes. The
  condition of the handlers does not read \<^verbatim>\<open>type\<close>: for the non-blank text \<open>hi\<close> and a
  response tagged \<open>question\<close> that also carries the recommendation \<open>approve\<close> and one
  change, the branch policy does not hold, and yet each handler calls \<^verbatim>\<open>fetchSchedules\<close>
  after the analysis call and replaces the displayed schedules by the join of the fetched
  entries. The rendering code of the same component does test
  \<^verbatim>\<open>analysis.type === "schedulechange"\<close> before it reads the recommendation.
\<close>

theorem question_tagged_approve_refreshes:
  "type (analysis (answer_object question_with_extras)) = question \<and>
   \<not> reconcile_policy (analysis (answer_object question_with_extras)) \<and>
   handleUserTextRequest
       (api0 (Inr (answer_object question_with_extras)) (Inr [friday, saturday]) (Inr ()))
       (home0 [0x68, 0x69]) =
     (Fulfilled,
      (home0 [0x68, 0x69])
        \<lparr>changeResponse := Some (answer_object question_with_extras),
         schedules :=
           [\<lparr>date = ''2024-01-05'', first_line_support = ''E1'', employee_name = ''Alice''\<rparr>,
            \<lparr>date = ''2024-01-06'', first_line_support = ''E7'',
             employee_name = ''Unknown Employee''\<rparr>]\<rparr>,
      [Call_processTextRequest \<lparr>request = [0x68, 0x69]\<rparr>,
       Call_fetchSchedules ''2024-01-05'']) \<and>
   handleChangeRequest
       (api0 (Inr (answer_object question_with_extras)) (Inr [friday, saturday]) (Inr ()))
       (home0 [0x68, 0x69]) =
     (Fulfilled,
      (home0 [0x68, 0x69])
        \<lparr>changeResponse := Some (answer_object question_with_extras),
         openModal := True,
         schedules :=
           [\<lparr>date = ''2024-01-05'', first_line_support = ''E1'', employee_name = ''Alice''\<rparr>,
            \<lparr>date = ''2024-01-06'', first_line_support = ''E7'',
             employee_name = ''Unknown Employee''\<rparr>]\<rparr>,
      [Call_processScheduleChange \<lparr>request_text = [0x68, 0x69]\<rparr>,
       Call_fetchSchedules ''2024-01-05''])"
proof -
  let ?Q = "api0 (Inr (answer_object question_with_extras)) (Inr [friday, saturday]) (Inr ())"
  let ?s = "home0 [0x68, 0x69]"
  have nb: "\<not> blank (changeRequest ?s)"
    by (simp add: home0_def not_blank_hi)
  have pt: "processTextRequest ?Q \<lparr>request = changeRequest ?s\<rparr> =
              Inr (answer_object question_with_extras)"
    and pc: "processScheduleChange ?Q \<lparr>request_text = changeRequest ?s\<rparr> =
              Inr (answer_object question_with_extras)"
    and fq: "fetchSchedules ?Q (formatDate (today ?Q)) = Inr [friday, saturday]"
    and d: "formatDate (today ?Q) = ''2024-01-05''"
    and t: "changeRequest ?s = [0x68, 0x69]"
    by (simp_all add: api0_def formatDate_sample home0_def)
  have ap: "approved (analysis (answer_object question_with_extras))"
    and ty: "type (analysis (answer_object question_with_extras)) = question"
    and np: "\<not> reconcile_policy (analysis (answer_object question_with_extras))"
    by (simp_all add: answer_object_def question_with_extras_def approved_def
        reconcile_policy_def)
  have j: "schedulesWithNames (employees ?s) [friday, saturday] =
     [\<lparr>date = ''2024-01-05'', first_line_support = ''E1'', employee_name = ''Alice''\<rparr>,
      \<lparr>date = ''2024-01-06'', first_line_support = ''E7'',
       employee_name = ''Unknown Employee''\<rparr>]"
    by (simp add: home0_def schedulesWithNames_def withName_def find_employee_def
        alice_def friday_def saturday_def)
  from text_refreshed [OF nb pt ap fq] change_refreshed [OF nb pc ap fq] ty np
  show ?thesis
    unfolding j d t by (simp add: home0_def Home_init_def)
qed

section \<open>The two handlers agree\<close>

text \<open>
  C6. Both handlers test the same condition on the analysis response and refresh in the same
  way: when their analysis calls have the same outcome, they make the same schedule fetches,
  each fetches exactly when the condition holds for a returned response, and they end in
  the same state, except that \<^verbatim>\<open>handleChangeRequest\<close> has also opened the modal.
\<close>

theorem handlers_agree:
  assumes "processScheduleChange env \<lparr>request_text = changeRequest s\<rparr> = outcome"
    and "processTextRequest env \<lparr>request = changeRequest s\<rparr> = outcome"
  shows "filter is_fetchSchedules (calls_of (handleChangeRequest env s)) =
           filter is_fetchSchedules (calls_of (handleUserTextRequest env s)) \<and>
         schedules (state_of (handleChangeRequest env s)) =
           schedules (state_of (handleUserTextRequest env s)) \<and>
         (\<not> blank (changeRequest s) \<longrightarrow>
            (\<forall>resp. outcome = Inr resp \<longrightarrow>
               ((\<exists>c \<in> set (calls_of (handleChangeRequest env s)). is_fetchSchedules c) \<longleftrightarrow>
                  approved (analysis resp)) \<and>
               ((\<exists>c \<in> set (calls_of (handleUserTextRequest env s)). is_fetchSchedules c) \<longleftrightarrow>
                  approved (analysis resp)))) \<and>
         state_of (handleChangeRequest env s) =
           (if blank (changeRequest s) \<or> (\<exists>e. outcome = Inl e)
            then state_of (handleUserTextRequest env s)
            else (state_of (handleUserTextRequest env s))\<lparr>openModal := True\<rparr>)"
proof (cases "blank (changeRequest s)")
  case True
  then show ?thesis
    by (simp add: handleChangeRequest_def handleUserTextRequest_def)
next
  case nb: False
  show ?thesis
  proof (cases outcome)
    case (Inl e)
    with assms nb show ?thesis
      by (simp add: change_analysis_failed text_analysis_failed calls_of_def state_of_def)
  next
    case (Inr resp)
    note a = assms [unfolded Inr]
    have f: "(\<exists>c \<in> set (calls_of (handleChangeRequest env s)). is_fetchSchedules c) \<longleftrightarrow>
               approved (analysis resp)"
      "(\<exists>c \<in> set (calls_of (handleUserTextRequest env s)). is_fetchSchedules c) \<longleftrightarrow>
               approved (analysis resp)"
      using nb a by (simp_all only: change_fetches_iff text_fetches_iff not_False_eq_True)
    show ?thesis
    proof (cases "approved (analysis resp)")
      case False
      with nb a Inr f show ?thesis
        by (simp add: change_not_approved text_not_approved calls_of_def state_of_def)
    next
      case True
      with nb a Inr f show ?thesis
        by (cases "fetchSchedules env (formatDate (today env))")
          (simp_all add: change_refresh_failed text_refresh_failed change_refreshed
            text_refreshed calls_of_def state_of_def)
    qed
  qed
qed

theorem handlers_agree_witness:
  "filter is_fetchSchedules (calls_of (handleChangeRequest
       (api0 (Inr (answer (ScheduleChangeAnalysis base0 [change0] approve)))
          (Inr [friday, saturday]) (Inr ()))
       (home0 [0x68, 0x69]))) =
     [Call_fetchSchedules ''2024-01-05''] \<and>
   schedules (state_of (handleChangeRequest
       (api0 (Inr (answer (ScheduleChangeAnalysis base0 [change0] approve)))
          (Inr [friday, saturday]) (Inr ()))
       (home0 [0x68, 0x69]))) =
     [\<lparr>date = ''2024-01-05'', first_line_support = ''E1'', employee_name = ''Alice''\<rparr>,
      \<lparr>date = ''2024-01-06'', first_line_support = ''E7'',
       employee_name = ''Unknown Employee''\<rparr>]"
proof -
  let ?A = "api0 (Inr (answer (ScheduleChangeAnalysis base0 [change0] approve)))
              (Inr [friday, saturday]) (Inr ())"
  let ?s = "home0 [0x68, 0x69]"
  have nb: "\<not> blank (changeRequest ?s)"
    by (simp add: home0_def not_blank_hi)
  have pc: "processScheduleChange ?A \<lparr>request_text = changeRequest ?s\<rparr> =
              Inr (answer (ScheduleChangeAnalysis base0 [change0] approve))"
    and pt: "processTextRequest ?A \<lparr>request = changeRequest ?s\<rparr> =
              Inr (answer (ScheduleChangeAnalysis base0 [change0] approve))"
    and fa: "fetchSchedules ?A (formatDate (today ?A)) = Inr [friday, saturday]"
    and d: "formatDate (today ?A) = ''2024-01-05''"
    and ap: "approved (analysis (answer (ScheduleChangeAnalysis base0 [change0] approve)))"
    by (simp_all add: api0_def formatDate_sample answer_def answer_object_def approved_def)
  from handlers_agree [OF pc pt]
  have "filter is_fetchSchedules (calls_of (handleChangeRequest ?A ?s)) =
          filter is_fetchSchedules (calls_of (handleUserTextRequest ?A ?s))"
    and "schedules (state_of (handleChangeRequest ?A ?s)) =
          schedules (state_of (handleUserTextRequest ?A ?s))"
    by blast+
  moreover have "handleUserTextRequest ?A ?s =
      (Fulfilled,
       ?s\<lparr>error := None,
          changeResponse := Some (answer (ScheduleChangeAnalysis base0 [change0] approve)),
          schedules := schedulesWithNames (employees ?s) [friday, saturday],
          requestLoading := False\<rparr>,
       [Call_processTextRequest \<lparr>request = changeRequest ?s\<rparr>,
        Call_fetchSchedules (formatDate (today ?A))])"
    by (rule text_refreshed [OF nb pt ap fa])
  moreover have "schedulesWithNames (employees ?s) [friday, saturday] =
     [\<lparr>date = ''2024-01-05'', first_line_support = ''E1'', employee_name = ''Alice''\<rparr>,
      \<lparr>date = ''2024-01-06'', first_line_support = ''E7'',
       employee_name = ''Unknown Employee''\<rparr>]"
    by (simp add: home0_def schedulesWithNames_def withName_def find_employee_def
        alice_def friday_def saturday_def)
  ultimately show ?thesis
    using d by (simp add: calls_of_def state_of_def)
qed

section \<open>Failures of the collaborators\<close>

lemma text_fulfilled: "completion_of (handleUserTextRequest env s) = Fulfilled"
proof (cases "blank (changeRequest s)")
  case True
  then show ?thesis by (simp add: handleUserTextRequest_def completion_of_def)
next
  case False
  then show ?thesis
    by (cases "handleUserTextRequest_try env s" rule: prod_cases3)
      (simp add: handleUserTextRequest_def catch_finally_def completion_of_def
        split: completion.split)
qed

lemma change_fulfilled: "completion_of (handleChangeRequest env s) = Fulfilled"
proof (cases "blank (changeRequest s)")
  case True
  then show ?thesis by (simp add: handleChangeRequest_def completion_of_def)
next
  case False
  then show ?thesis
    by (cases "handleChangeRequest_try env s" rule: prod_cases3)
      (simp add: handleChangeRequest_def catch_finally_def completion_of_def
        split: completion.split)
qed

text \<open>
  C7. The promise of a handler is always fulfilled: no rejection leaves it. When the
  analysis call is rejected, the state is the state before with the one fixed message in
  \<open>error\<close>: the schedules and the displayed response are untouched. When the analysis call
  succeeds but the schedule fetch is rejected, the state has the same message, the schedules
  are untouched, and the displayed response is the whole response of the analysis call.
\<close>

theorem failures_become_message:
  assumes "\<not> blank (changeRequest s)"
  shows "completion_of (handleUserTextRequest env s) = Fulfilled \<and>
         completion_of (handleChangeRequest env s) = Fulfilled \<and>
         (processTextRequest env \<lparr>request = changeRequest s\<rparr> = Inl e \<longrightarrow>
            state_of (handleUserTextRequest env s) =
              s\<lparr>error := Some ''Failed to process schedule change request.'',
                requestLoading := False\<rparr>) \<and>
         (processTextRequest env \<lparr>request = changeRequest s\<rparr> = Inr resp \<longrightarrow>
          approved (analysis resp) \<longrightarrow>
          fetchSchedules env (formatDate (today env)) = Inl e \<longrightarrow>
            state_of (handleUserTextRequest env s) =
              s\<lparr>changeResponse := Some resp,
                error := Some ''Failed to process schedule change request.'',
                requestLoading := False\<rparr>) \<and>
         (processScheduleChange env \<lparr>request_text = changeRequest s\<rparr> = Inl e \<longrightarrow>
            state_of (handleChangeRequest env s) =
              s\<lparr>error := Some ''Failed to process schedule change request.'',
                requestLoading := False\<rparr>) \<and>
         (processScheduleChange env \<lparr>request_text = changeRequest s\<rparr> = Inr resp \<longrightarrow>
          approved (analysis resp) \<longrightarrow>
          fetchSchedules env (formatDate (today env)) = Inl e \<longrightarrow>
            state_of (handleChangeRequest env s) =
              s\<lparr>changeResponse := Some resp, openModal := True,
                error := Some ''Failed to process schedule change request.'',
                requestLoading := False\<rparr>)"
  using assms
  by (simp add: text_fulfilled change_fulfilled text_analysis_failed text_refresh_failed
      change_analysis_failed change_refresh_failed state_of_def)

theorem failures_become_message_witness:
  "handleUserTextRequest (api0 (Inl (FetchError ''500'')) (Inr [friday]) (Inr ()))
       (home0 [0x68, 0x69]) =
     (Fulfilled,
      (home0 [0x68, 0x69])\<lparr>error := Some ''Failed to process schedule change request.''\<rparr>,
      [Call_processTextRequest \<lparr>request = [0x68, 0x69]\<rparr>]) \<and>
   completion_of (handleChangeRequest
       (api0 (Inr (answer (ScheduleChangeAnalysis base0 [change0] approve)))
          (Inl (FetchError ''503'')) (Inr ()))
       (home0 [0x68, 0x69])) = Fulfilled \<and>
   state_of (handleChangeRequest
       (api0 (Inr (answer (ScheduleChangeAnalysis base0 [change0] approve)))
          (Inl (FetchError ''503'')) (Inr ()))
       (home0 [0x68, 0x69])) =
     (home0 [0x68, 0x69])
       \<lparr>changeResponse := Some (answer (ScheduleChangeAnalysis base0 [change0] approve)),
        openModal := True,
        error := Some ''Failed to process schedule change request.''\<rparr>"
proof -
  let ?F = "api0 (Inl (FetchError ''500'')) (Inr [friday]) (Inr ())"
  let ?G = "api0 (Inr (answer (ScheduleChangeAnalysis base0 [change0] approve)))
              (Inl (FetchError ''503'')) (Inr ())"
  let ?s = "home0 [0x68, 0x69]"
  have nb: "\<not> blank (changeRequest ?s)"
    by (simp add: home0_def not_blank_hi)
  have pf: "processTextRequest ?F \<lparr>request = changeRequest ?s\<rparr> = Inl (FetchError ''500'')"
    and pg: "processScheduleChange ?G \<lparr>request_text = changeRequest ?s\<rparr> =
               Inr (answer (ScheduleChangeAnalysis base0 [change0] approve))"
    and fg: "fetchSchedules ?G (formatDate (today ?G)) = Inl (FetchError ''503'')"
    and ap: "approved (analysis (answer (ScheduleChangeAnalysis base0 [change0] approve)))"
    by (simp_all add: api0_def formatDate_sample answer_def answer_object_def approved_def)
  from failures_become_message [OF nb, of ?F "FetchError ''500''"] pf
  have 1: "completion_of (handleUserTextRequest ?F ?s) = Fulfilled"
    and 2: "state_of (handleUserTextRequest ?F ?s) =
              ?s\<lparr>error := Some ''Failed to process schedule change request.'',
                 requestLoading := False\<rparr>"
    by blast+
  from failures_become_message [OF nb, of ?G "FetchError ''503''"] pg ap fg
  have 3: "completion_of (handleChangeRequest ?G ?s) = Fulfilled"
    and 4: "state_of (handleChangeRequest ?G ?s) =
              ?s\<lparr>changeResponse := Some (answer (ScheduleChangeAnalysis base0 [change0] approve)),
                 openModal := True,
                 error := Some ''Failed to process schedule change request.'',
                 requestLoading := False\<rparr>"
    by blast+
  have 5: "calls_of (handleUserTextRequest ?F ?s) =
             [Call_processTextRequest \<lparr>request = [0x68, 0x69]\<rparr>]"
    using text_analysis_failed [OF nb pf] by (simp add: calls_of_def home0_def)
  from 1 2 3 4 5 show ?thesis
    by (cases "handleUserTextRequest ?F ?s" rule: prod_cases3)
      (simp add: completion_of_def state_of_def calls_of_def home0_def Home_init_def)
qed

section \<open>What every run leaves alone\<close>

lemma text_run_shape:
  "\<exists>s' cs. handleUserTextRequest env s = (Fulfilled, s', cs) \<and>
     employees s' = employees s \<and>
     (\<forall>c \<in> set cs. c = Call_processTextRequest \<lparr>request = changeRequest s\<rparr> \<or>
        c = Call_fetchSchedules (formatDate (today env))) \<and>
     (schedules s' = schedules s \<or>
      (\<exists>sd. fetchSchedules env (formatDate (today env)) = Inr sd \<and>
         schedules s' = schedulesWithNames (employees s) sd))"
  by (auto simp: handleUserTextRequest_def handleUserTextRequest_try_def catch_finally_def
      refresh_def Let_def split: sum.splits)

lemma change_run_shape:
  "\<exists>s' cs. handleChangeRequest env s = (Fulfilled, s', cs) \<and>
     employees s' = employees s \<and>
     (\<forall>c \<in> set cs. c = Call_processScheduleChange \<lparr>request_text = changeRequest s\<rparr> \<or>
        c = Call_fetchSchedules (formatDate (today env))) \<and>
     (schedules s' = schedules s \<or>
      (\<exists>sd. fetchSchedules env (formatDate (today env)) = Inr sd \<and>
         schedules s' = schedulesWithNames (employees s) sd))"
  by (auto simp: handleChangeRequest_def handleChangeRequest_try_def catch_finally_def
      refresh_def Let_def split: sum.splits)

lemma apply_run_shape:
  "\<exists>c s' cs. apply_fn env s = (c, s', cs) \<and>
     employees s' = employees s \<and>
     (\<forall>c \<in> set cs. c = Call_updateDBChange \<lparr>request_text = changeRequest s\<rparr> \<or>
        c = Call_fetchSchedules (formatDate (today env))) \<and>
     (schedules s' = schedules s \<or>
      (\<exists>sd. fetchSchedules env (formatDate (today env)) = Inr sd \<and>
         schedules s' = schedulesWithNames (employees s) sd))"
  by (auto simp: apply_fn_def refresh_def Let_def split: sum.splits)

lemma test_run_shape:
  "\<exists>c s' cs. test env s = (c, s', cs) \<and>
     employees s' = employees s \<and>
     (\<forall>c \<in> set cs. c = Call_getDBChange \<lparr>request_text = changeRequest s\<rparr> \<or>
        c = Call_fetchSchedules (formatDate (today env))) \<and>
     (schedules s' = schedules s \<or>
      (\<exists>sd. fetchSchedules env (formatDate (today env)) = Inr sd \<and>
         schedules s' = schedulesWithNames (employees s) sd))"
  by (auto simp: test_def refresh_def Let_def split: sum.splits)

lemma loadData_ok:
  assumes "fetchEmployees env = Inr ed"
    and "fetchSchedules env (formatDate (today env)) = Inr sd"
    and "fetchRules env = Inr r"
  shows "loadData env s =
           (Fulfilled,
            s\<lparr>employees := ed, schedules := schedulesWithNames ed sd, rules := Some r,
              loading := False\<rparr>,
            [Call_fetchEmployees, Call_fetchSchedules (formatDate (today env)), Call_fetchRules])"
  using assms by (simp add: loadData_def)

lemma loadData_schedules:
  "schedules (state_of (loadData env s)) = schedules s \<or>
   (\<exists>ed sd. fetchEmployees env = Inr ed \<and>
      fetchSchedules env (formatDate (today env)) = Inr sd \<and>
      schedules (state_of (loadData env s)) = schedulesWithNames ed sd)"
  by (auto simp: loadData_def state_of_def Let_def split: sum.splits)

lemma apply_ok:
  assumes "updateDBChange env \<lparr>request_text = changeRequest s\<rparr> = Inr u"
    and "fetchSchedules env (formatDate (today env)) = Inr sd"
  shows "apply_fn env s =
           (Fulfilled, s\<lparr>schedules := schedulesWithNames (employees s) sd\<rparr>,
            [Call_updateDBChange \<lparr>request_text = changeRequest s\<rparr>,
             Call_fetchSchedules (formatDate (today env))])"
  using assms by (simp add: apply_fn_def refresh_ok)

lemma apply_commit_failed:
  assumes "updateDBChange env \<lparr>request_text = changeRequest s\<rparr> = Inl e"
  shows "apply_fn env s =
           (Rejected e, s, [Call_updateDBChange \<lparr>request_text = changeRequest s\<rparr>])"
  using assms by (simp add: apply_fn_def)

lemma apply_fetch_failed:
  assumes "updateDBChange env \<lparr>request_text = changeRequest s\<rparr> = Inr u"
    and "fetchSchedules env (formatDate (today env)) = Inl e"
  shows "apply_fn env s =
           (Rejected e, s,
            [Call_updateDBChange \<lparr>request_text = changeRequest s\<rparr>,
             Call_fetchSchedules (formatDate (today env))])"
  using assms by (simp add: apply_fn_def refresh_failed)

lemma text_no_commit: "filter is_updateDBChange (calls_of (handleUserTextRequest env s)) = []"
proof -
  from text_run_shape [of env s] obtain s' cs
    where "handleUserTextRequest env s = (Fulfilled, s', cs)"
      and "\<forall>c \<in> set cs. c = Call_processTextRequest \<lparr>request = changeRequest s\<rparr> \<or>
             c = Call_fetchSchedules (formatDate (today env))"
    by blast
  then show ?thesis
    by (auto simp: calls_of_def filter_empty_conv)
qed

lemma change_no_commit: "filter is_updateDBChange (calls_of (handleChangeRequest env s)) = []"
proof -
  from change_run_shape [of env s] obtain s' cs
    where "handleChangeRequest env s = (Fulfilled, s', cs)"
      and "\<forall>c \<in> set cs. c = Call_processScheduleChange \<lparr>request_text = changeRequest s\<rparr> \<or>
             c = Call_fetchSchedules (formatDate (today env))"
    by blast
  then show ?thesis
    by (auto simp: calls_of_def filter_empty_conv)
qed

section \<open>Refreshing and committing\<close>

text \<open>
  The claim that a handler commits the approved edits through the persistence collaborator
  when the condition holds fails: for an approved response with one change, each handler
  calls the analysis collaborator and then fetches the schedules; it makes no call of
  \<^verbatim>\<open>updateDBChange\<close>.
\<close>

theorem approved_run_commits_counterexample:
  "reconcile_policy (analysis (answer (ScheduleChangeAnalysis base0 [change0] approve))) \<and>
   calls_of (handleUserTextRequest
       (api0 (Inr (answer (ScheduleChangeAnalysis base0 [change0] approve)))
          (Inr [friday, saturday]) (Inr ()))
       (home0 [0x68, 0x69])) =
     [Call_processTextRequest \<lparr>request = [0x68, 0x69]\<rparr>, Call_fetchSchedules ''2024-01-05''] \<and>
   calls_of (handleChangeRequest
       (api0 (Inr (answer (ScheduleChangeAnalysis base0 [change0] approve)))
          (Inr [friday, saturday]) (Inr ()))
       (home0 [0x68, 0x69])) =
     [Call_processScheduleChange \<lparr>request_text = [0x68, 0x69]\<rparr>,
      Call_fetchSchedules ''2024-01-05''] \<and>
   filter is_updateDBChange (calls_of (handleUserTextRequest
       (api0 (Inr (answer (ScheduleChangeAnalysis base0 [change0] approve)))
          (Inr [friday, saturday]) (Inr ()))
       (home0 [0x68, 0x69]))) = []"
proof -
  let ?A = "api0 (Inr (answer (ScheduleChangeAnalysis base0 [change0] approve)))
              (Inr [friday, saturday]) (Inr ())"
  let ?s = "home0 [0x68, 0x69]"
  have nb: "\<not> blank (changeRequest ?s)"
    by (simp add: home0_def not_blank_hi)
  have pc: "processScheduleChange ?A \<lparr>request_text = changeRequest ?s\<rparr> =
              Inr (answer (ScheduleChangeAnalysis base0 [change0] approve))"
    and pt: "processTextRequest ?A \<lparr>request = changeRequest ?s\<rparr> =
              Inr (answer (ScheduleChangeAnalysis base0 [change0] approve))"
    and fa: "fetchSchedules ?A (formatDate (today ?A)) = Inr [friday, saturday]"
    and d: "formatDate (today ?A) = ''2024-01-05''"
    and ap: "approved (analysis (answer (ScheduleChangeAnalysis base0 [change0] approve)))"
    and rp: "reconcile_policy (analysis (answer (ScheduleChangeAnalysis base0 [change0] approve)))"
    and t: "changeRequest ?s = [0x68, 0x69]"
    by (simp_all add: api0_def formatDate_sample answer_def answer_object_def approved_def reconcile_policy_def
        home0_def)
  from text_refreshed [OF nb pt ap fa] change_refreshed [OF nb pc ap fa] rp d t
  show ?thesis
    by (simp add: calls_of_def)
qed

text \<open>
  C8, as the code has it. A handler never calls the persistence collaborator. When the
  condition holds and the fetch succeeds, the handler has called the analysis collaborator
  and fetched the schedules for today's date, and the displayed schedules are the join of
  the fetched entries with the employees: they do not depend on the proposed changes or on
  the schedules shown before. The function \<^verbatim>\<open>apply\<close>, which no condition guards, makes one
  call of \<^verbatim>\<open>updateDBChange\<close> with the request text; if that call succeeds it fetches and
  joins in the same way, and if it fails nothing is fetched and the state is as before.
\<close>

theorem refresh_replaces_schedules:
  "filter is_updateDBChange (calls_of (handleUserTextRequest env s)) = [] \<and>
   filter is_updateDBChange (calls_of (handleChangeRequest env s)) = [] \<and>
   (\<not> blank (changeRequest s) \<longrightarrow>
    processTextRequest env \<lparr>request = changeRequest s\<rparr> = Inr resp \<longrightarrow>
    approved (analysis resp) \<longrightarrow>
    fetchSchedules env (formatDate (today env)) = Inr sd \<longrightarrow>
      handleUserTextRequest env s =
        (Fulfilled,
         s\<lparr>error := None, changeResponse := Some resp,
           schedules := schedulesWithNames (employees s) sd, requestLoading := False\<rparr>,
         [Call_processTextRequest \<lparr>request = changeRequest s\<rparr>,
          Call_fetchSchedules (formatDate (today env))])) \<and>
   (\<not> blank (changeRequest s) \<longrightarrow>
    processScheduleChange env \<lparr>request_text = changeRequest s\<rparr> = Inr resp \<longrightarrow>
    approved (analysis resp) \<longrightarrow>
    fetchSchedules env (formatDate (today env)) = Inr sd \<longrightarrow>
      handleChangeRequest env s =
        (Fulfilled,
         s\<lparr>error := None, changeResponse := Some resp, openModal := True,
           schedules := schedulesWithNames (employees s) sd, requestLoading := False\<rparr>,
         [Call_processScheduleChange \<lparr>request_text = changeRequest s\<rparr>,
          Call_fetchSchedules (formatDate (today env))])) \<and>
   (updateDBChange env \<lparr>request_text = changeRequest s\<rparr> = Inr u \<longrightarrow>
    fetchSchedules env (formatDate (today env)) = Inr sd \<longrightarrow>
      apply_fn env s =
        (Fulfilled, s\<lparr>schedules := schedulesWithNames (employees s) sd\<rparr>,
         [Call_updateDBChange \<lparr>request_text = changeRequest s\<rparr>,
          Call_fetchSchedules (formatDate (today env))])) \<and>
   (updateDBChange env \<lparr>request_text = changeRequest s\<rparr> = Inl e \<longrightarrow>
      apply_fn env s =
        (Rejected e, s, [Call_updateDBChange \<lparr>request_text = changeRequest s\<rparr>]))"
proof (intro conjI impI)
  show "filter is_updateDBChange (calls_of (handleUserTextRequest env s)) = []"
    by (rule text_no_commit)
  show "filter is_updateDBChange (calls_of (handleChangeRequest env s)) = []"
    by (rule change_no_commit)
qed (simp_all add: text_refreshed change_refreshed apply_ok apply_commit_failed)

theorem refresh_replaces_schedules_witness:
  "apply_fn (api0 (Inl (FetchError ''500'')) (Inr [friday, saturday]) (Inr ()))
       (home0 [0x68, 0x69]) =
     (Fulfilled,
      (home0 [0x68, 0x69])
        \<lparr>schedules :=
           [\<lparr>date = ''2024-01-05'', first_line_support = ''E1'', employee_name = ''Alice''\<rparr>,
            \<lparr>date = ''2024-01-06'', first_line_support = ''E7'',
             employee_name = ''Unknown Employee''\<rparr>]\<rparr>,
      [Call_updateDBChange \<lparr>request_text = [0x68, 0x69]\<rparr>,
       Call_fetchSchedules ''2024-01-05'']) \<and>
   apply_fn (api0 (Inl (FetchError ''500'')) (Inr [friday, saturday])
         (Inl (FetchError ''409'')))
       (home0 [0x68, 0x69]) =
     (Rejected (FetchError ''409''), home0 [0x68, 0x69],
      [Call_updateDBChange \<lparr>request_text = [0x68, 0x69]\<rparr>]) \<and>
   handleChangeRequest
       (api0 (Inr (answer (ScheduleChangeAnalysis base0 [change0] approve)))
          (Inr [friday]) (Inr ()))
       (home0 [0x68, 0x69]) =
     (Fulfilled,
      (home0 [0x68, 0x69])
        \<lparr>changeResponse := Some (answer (ScheduleChangeAnalysis base0 [change0] approve)),
         openModal := True,
         schedules :=
           [\<lparr>date = ''2024-01-05'', first_line_support = ''E1'', employee_name = ''Alice''\<rparr>]\<rparr>,
      [Call_processScheduleChange \<lparr>request_text = [0x68, 0x69]\<rparr>,
       Call_fetchSchedules ''2024-01-05''])"
proof -
  let ?U = "api0 (Inl (FetchError ''500'')) (Inr [friday, saturday]) (Inr ())"
  let ?V = "api0 (Inl (FetchError ''500'')) (Inr [friday, saturday]) (Inl (FetchError ''409''))"
  let ?A = "api0 (Inr (answer (ScheduleChangeAnalysis base0 [change0] approve)))
              (Inr [friday]) (Inr ())"
  let ?s = "home0 [0x68, 0x69]"
  have nb: "\<not> blank (changeRequest ?s)"
    by (simp add: home0_def not_blank_hi)
  have uu: "updateDBChange ?U \<lparr>request_text = changeRequest ?s\<rparr> = Inr ()"
    and fu: "fetchSchedules ?U (formatDate (today ?U)) = Inr [friday, saturday]"
    and uv: "updateDBChange ?V \<lparr>request_text = changeRequest ?s\<rparr> = Inl (FetchError ''409'')"
    and pa: "processScheduleChange ?A \<lparr>request_text = changeRequest ?s\<rparr> =
               Inr (answer (ScheduleChangeAnalysis base0 [change0] approve))"
    and fa: "fetchSchedules ?A (formatDate (today ?A)) = Inr [friday]"
    and ap: "approved (analysis (answer (ScheduleChangeAnalysis base0 [change0] approve)))"
    by (simp_all add: api0_def formatDate_sample answer_def answer_object_def approved_def)
  have d: "formatDate (today ?U) = ''2024-01-05''" "formatDate (today ?A) = ''2024-01-05''"
    and t: "changeRequest ?s = [0x68, 0x69]"
    by (simp_all add: api0_def formatDate_sample home0_def)
  have j: "schedulesWithNames (employees ?s) [friday, saturday] =
     [\<lparr>date = ''2024-01-05'', first_line_support = ''E1'', employee_name = ''Alice''\<rparr>,
      \<lparr>date = ''2024-01-06'', first_line_support = ''E7'',
       employee_name = ''Unknown Employee''\<rparr>]"
    "schedulesWithNames (employees ?s) [friday] =
     [\<lparr>date = ''2024-01-05'', first_line_support = ''E1'', employee_name = ''Alice''\<rparr>]"
    by (simp_all add: home0_def schedulesWithNames_def withName_def find_employee_def
        alice_def friday_def saturday_def)
  from refresh_replaces_schedules [of ?U ?s _ "[friday, saturday]" "()"] uu fu
  have 1: "apply_fn ?U ?s =
        (Fulfilled, ?s\<lparr>schedules := schedulesWithNames (employees ?s) [friday, saturday]\<rparr>,
         [Call_updateDBChange \<lparr>request_text = changeRequest ?s\<rparr>,
          Call_fetchSchedules (formatDate (today ?U))])"
    by blast
  from refresh_replaces_schedules [of ?V ?s _ _ _ "FetchError ''409''"] uv
  have 2: "apply_fn ?V ?s =
        (Rejected (FetchError ''409''), ?s,
         [Call_updateDBChange \<lparr>request_text = changeRequest ?s\<rparr>])"
    by blast
  from refresh_replaces_schedules [of ?A ?s _ "[friday]"] nb pa ap fa
  have 3: "handleChangeRequest ?A ?s =
        (Fulfilled,
         ?s\<lparr>error := None,
            changeResponse := Some (answer (ScheduleChangeAnalysis base0 [change0] approve)),
            openModal := True,
            schedules := schedulesWithNames (employees ?s) [friday],
            requestLoading := False\<rparr>,
         [Call_processScheduleChange \<lparr>request_text = changeRequest ?s\<rparr>,
          Call_fetchSchedules (formatDate (today ?A))])"
    by blast
  from 1 2 3 show ?thesis
    unfolding j d t by (simp add: home0_def Home_init_def)
qed

section \<open>The employees are fetched once\<close>

lemma no_fetchEmployees:
  "Call_fetchEmployees \<notin> set (calls_of (handleUserTextRequest env s))"
  "Call_fetchEmployees \<notin> set (calls_of (handleChangeRequest env s))"
  "Call_fetchEmployees \<notin> set (calls_of (apply_fn env s))"
  "Call_fetchEmployees \<notin> set (calls_of (test env s))"
  using text_run_shape [of env s] change_run_shape [of env s] apply_run_shape [of env s]
    test_run_shape [of env s]
  by (auto simp: calls_of_def)

lemma employees_kept:
  "employees (state_of (handleUserTextRequest env s)) = employees s"
  "employees (state_of (handleChangeRequest env s)) = employees s"
  "employees (state_of (apply_fn env s)) = employees s"
  "employees (state_of (test env s)) = employees s"
  using text_run_shape [of env s] change_run_shape [of env s] apply_run_shape [of env s]
    test_run_shape [of env s]
  by (auto simp: state_of_def)

lemma unknown_after_join:
  assumes "i < length sd"
    and "\<forall>e \<in> set emps. employee_number e \<noteq> first_line_support (sd ! i)"
  shows "employee_name (schedulesWithNames emps sd ! i) = ''Unknown Employee''"
  using assms by (simp add: schedulesWithNames_nth withName_not_found find_employee_None)

text \<open>
  C10. The first load stores the fetched employees. After that, neither handler, nor
  \<^verbatim>\<open>apply\<close>, nor \<^verbatim>\<open>test\<close> changes the stored employees or calls \<^verbatim>\<open>fetchEmployees\<close>.
  The join after an approved response uses the stored employees, so a fetched entry whose
  \<open>first_line_support\<close> is the number of no stored employee is shown as
  \<open>Unknown Employee\<close>, whatever employees exist by then.
\<close>

theorem employees_snapshot_is_kept:
  "(fetchEmployees env0 = Inr ed \<longrightarrow>
    fetchSchedules env0 (formatDate (today env0)) = Inr sd0 \<longrightarrow>
    fetchRules env0 = Inr r \<longrightarrow>
      employees (state_of (loadData env0 s0)) = ed) \<and>
   employees (state_of (handleUserTextRequest env s)) = employees s \<and>
   employees (state_of (handleChangeRequest env s)) = employees s \<and>
   employees (state_of (apply_fn env s)) = employees s \<and>
   employees (state_of (test env s)) = employees s \<and>
   Call_fetchEmployees \<notin> set (calls_of (handleUserTextRequest env s)) \<and>
   Call_fetchEmployees \<notin> set (calls_of (handleChangeRequest env s)) \<and>
   Call_fetchEmployees \<notin> set (calls_of (apply_fn env s)) \<and>
   Call_fetchEmployees \<notin> set (calls_of (test env s)) \<and>
   (\<not> blank (changeRequest s) \<longrightarrow>
    processTextRequest env \<lparr>request = changeRequest s\<rparr> = Inr resp \<longrightarrow>
    approved (analysis resp) \<longrightarrow>
    fetchSchedules env (formatDate (today env)) = Inr sd \<longrightarrow>
      schedules (state_of (handleUserTextRequest env s)) =
        schedulesWithNames (employees s) sd \<and>
      (\<forall>i < length sd.
         (\<forall>e \<in> set (employees s). employee_number e \<noteq> first_line_support (sd ! i)) \<longrightarrow>
         employee_name (schedules (state_of (handleUserTextRequest env s)) ! i) =
           ''Unknown Employee'')) \<and>
   (\<not> blank (changeRequest s) \<longrightarrow>
    processScheduleChange env \<lparr>request_text = changeRequest s\<rparr> = Inr resp \<longrightarrow>
    approved (analysis resp) \<longrightarrow>
    fetchSchedules env (formatDate (today env)) = Inr sd \<longrightarrow>
      schedules (state_of (handleChangeRequest env s)) =
        schedulesWithNames (employees s) sd \<and>
      (\<forall>i < length sd.
         (\<forall>e \<in> set (employees s). employee_number e \<noteq> first_line_support (sd ! i)) \<longrightarrow>
         employee_name (schedules (state_of (handleChangeRequest env s)) ! i) =
           ''Unknown Employee''))"
proof (intro conjI impI)
  assume "fetchEmployees env0 = Inr ed" "fetchSchedules env0 (formatDate (today env0)) = Inr sd0"
    "fetchRules env0 = Inr r"
  then show "employees (state_of (loadData env0 s0)) = ed"
    by (simp add: loadData_ok state_of_def)
next
  assume "\<not> blank (changeRequest s)"
    "processTextRequest env \<lparr>request = changeRequest s\<rparr> = Inr resp"
    "approved (analysis resp)" "fetchSchedules env (formatDate (today env)) = Inr sd"
  then have j: "schedules (state_of (handleUserTextRequest env s)) =
      schedulesWithNames (employees s) sd"
    by (simp add: text_refreshed state_of_def)
  then show "schedules (state_of (handleUserTextRequest env s)) =
      schedulesWithNames (employees s) sd" .
  from j show "\<forall>i < length sd.
         (\<forall>e \<in> set (employees s). employee_number e \<noteq> first_line_support (sd ! i)) \<longrightarrow>
         employee_name (schedules (state_of (handleUserTextRequest env s)) ! i) =
           ''Unknown Employee''"
    by (simp add: unknown_after_join)
next
  assume "\<not> blank (changeRequest s)"
    "processScheduleChange env \<lparr>request_text = changeRequest s\<rparr> = Inr resp"
    "approved (analysis resp)" "fetchSchedules env (formatDate (today env)) = Inr sd"
  then have j: "schedules (state_of (handleChangeRequest env s)) =
      schedulesWithNames (employees s) sd"
    by (simp add: change_refreshed state_of_def)
  then show "schedules (state_of (handleChangeRequest env s)) =
      schedulesWithNames (employees s) sd" .
  from j show "\<forall>i < length sd.
         (\<forall>e \<in> set (employees s). employee_number e \<noteq> first_line_support (sd ! i)) \<longrightarrow>
         employee_name (schedules (state_of (handleChangeRequest env s)) ! i) =
           ''Unknown Employee''"
    by (simp add: unknown_after_join)
qed (simp_all only: no_fetchEmployees employees_kept not_False_eq_True)

theorem employees_snapshot_is_kept_witness:
  "fetchEmployees
     ((api0 (Inr (answer (ScheduleChangeAnalysis base0 [change0] approve)))
         (Inr [friday, saturday]) (Inr ()))\<lparr>fetchEmployees := Inr [alice, erin]\<rparr>) =
     Inr [alice, erin] \<and>
   employees (state_of (handleUserTextRequest
     ((api0 (Inr (answer (ScheduleChangeAnalysis base0 [change0] approve)))
         (Inr [friday, saturday]) (Inr ()))\<lparr>fetchEmployees := Inr [alice, erin]\<rparr>)
     (loaded (api0 (Inl (FetchError ''500'')) (Inr [friday]) (Inr ())) [0x68, 0x69]))) =
     [alice] \<and>
   employee_name (schedules (state_of (handleUserTextRequest
     ((api0 (Inr (answer (ScheduleChangeAnalysis base0 [change0] approve)))
         (Inr [friday, saturday]) (Inr ()))\<lparr>fetchEmployees := Inr [alice, erin]\<rparr>)
     (loaded (api0 (Inl (FetchError ''500'')) (Inr [friday]) (Inr ())) [0x68, 0x69]))) ! 1) =
     ''Unknown Employee''"
proof -
  let ?L = "api0 (Inl (FetchError ''500'')) (Inr [friday]) (Inr ())"
  let ?A = "(api0 (Inr (answer (ScheduleChangeAnalysis base0 [change0] approve)))
              (Inr [friday, saturday]) (Inr ()))\<lparr>fetchEmployees := Inr [alice, erin]\<rparr>"
  let ?s = "loaded ?L [0x68, 0x69]"
  have l: "fetchEmployees ?L = Inr [alice]" "fetchSchedules ?L (formatDate (today ?L)) = Inr [friday]"
    "fetchRules ?L = Inr rules0"
    by (simp_all add: api0_def formatDate_sample)
  from employees_snapshot_is_kept [of ?L "[alice]" "[friday]" rules0 Home_init] l
  have "employees (state_of (loadData ?L Home_init)) = [alice]"
    by blast
  then have es: "employees ?s = [alice]"
    by (simp add: loaded_def)
  have nb: "\<not> blank (changeRequest ?s)"
    by (simp add: loaded_def not_blank_hi)
  have pa: "processTextRequest ?A \<lparr>request = changeRequest ?s\<rparr> =
              Inr (answer (ScheduleChangeAnalysis base0 [change0] approve))"
    and fa: "fetchSchedules ?A (formatDate (today ?A)) = Inr [friday, saturday]"
    and ap: "approved (analysis (answer (ScheduleChangeAnalysis base0 [change0] approve)))"
    and fe: "fetchEmployees ?A = Inr [alice, erin]"
    by (simp_all add: api0_def formatDate_sample answer_def answer_object_def approved_def)
  have i1: "(1::nat) < length [friday, saturday]" by simp
  have k: "\<forall>e \<in> set (employees ?s). employee_number e \<noteq> first_line_support ([friday, saturday] ! 1)"
    by (simp add: es alice_def saturday_def)
  from employees_snapshot_is_kept [of _ _ _ _ _ ?A ?s _ "[friday, saturday]"] nb pa ap fa
  have 1: "employees (state_of (handleUserTextRequest ?A ?s)) = employees ?s"
    and 2: "\<forall>i < length [friday, saturday].
         (\<forall>e \<in> set (employees ?s). employee_number e \<noteq> first_line_support ([friday, saturday] ! i)) \<longrightarrow>
         employee_name (schedules (state_of (handleUserTextRequest ?A ?s)) ! i) =
           ''Unknown Employee''"
    by blast+
  from 2 i1 k
  have "employee_name (schedules (state_of (handleUserTextRequest ?A ?s)) ! 1) =
          ''Unknown Employee''"
    by blast
  with 1 es fe show ?thesis by simp
qed

section \<open>The names of the displayed entries\<close>

lemma joined_name:
  assumes "x \<in> set (schedulesWithNames emps entries)"
  shows "employee_name x = ''Unknown Employee'' \<or>
         (\<exists>e \<in> set emps. employee_number e = first_line_support x \<and> employee_name x = name e)"
proof -
  from assms obtain entry where x: "x = withName emps entry"
    by (auto simp: schedulesWithNames_def)
  show ?thesis
  proof (cases "find_employee emps entry")
    case None
    with x show ?thesis by (simp add: withName_not_found)
  next
    case (Some emp)
    from find_employee_Some [OF Some] withName_found [OF Some] x show ?thesis
      by (auto simp: withName_fields)
  qed
qed

text \<open>
  The claim that \<open>employee_name\<close> is never empty fails: an employee record whose \<open>name\<close>
  is the empty string is a value of type \<^verbatim>\<open>Employee\<close>, and the first load joins its
  entries with that empty name.
\<close>

theorem employee_name_nonempty_counterexample:
  "schedules (state_of (loadData
       ((api0 (Inl (FetchError ''500'')) (Inr [friday]) (Inr ()))
          \<lparr>fetchEmployees := Inr [nameless]\<rparr>)
       Home_init)) =
     [\<lparr>date = ''2024-01-05'', first_line_support = ''E1'', employee_name = []\<rparr>]"
  by (simp add: loadData_def api0_def formatDate_sample state_of_def Home_init_def
      schedulesWithNames_def withName_def find_employee_def nameless_def friday_def)

text \<open>
  C9, as the code has it. Every entry of a join carries either the text
  \<open>Unknown Employee\<close> or the \<open>name\<close> of an employee of the joined list whose number is the
  entry's \<open>first_line_support\<close>; so it is not empty when no employee of the list has an
  empty name. The schedules after the first load, after either handler, after \<^verbatim>\<open>apply\<close>
  and after \<^verbatim>\<open>test\<close> are the schedules before or such a join: of the fetched employees for
  the first load, of the stored employees otherwise.
\<close>

theorem display_names_resolved:
  "(\<forall>x \<in> set (schedulesWithNames emps entries).
      (employee_name x = ''Unknown Employee'' \<or>
       (\<exists>e \<in> set emps. employee_number e = first_line_support x \<and> employee_name x = name e)) \<and>
      ((\<forall>e \<in> set emps. name e \<noteq> []) \<longrightarrow> employee_name x \<noteq> [])) \<and>
   (schedules (state_of (loadData env s)) = schedules s \<or>
    (\<exists>ed sd. fetchEmployees env = Inr ed \<and>
       fetchSchedules env (formatDate (today env)) = Inr sd \<and>
       schedules (state_of (loadData env s)) = schedulesWithNames ed sd)) \<and>
   (\<forall>f \<in> {handleUserTextRequest, handleChangeRequest, apply_fn, test}.
      schedules (state_of (f env s)) = schedules s \<or>
      (\<exists>sd. fetchSchedules env (formatDate (today env)) = Inr sd \<and>
         schedules (state_of (f env s)) = schedulesWithNames (employees s) sd))"
proof (intro conjI ballI impI)
  fix x
  assume x: "x \<in> set (schedulesWithNames emps entries)"
  then show d: "employee_name x = ''Unknown Employee'' \<or>
         (\<exists>e \<in> set emps. employee_number e = first_line_support x \<and> employee_name x = name e)"
    by (rule joined_name)
  assume "\<forall>e \<in> set emps. name e \<noteq> []"
  with d show "employee_name x \<noteq> []" by auto
next
  show "schedules (state_of (loadData env s)) = schedules s \<or>
    (\<exists>ed sd. fetchEmployees env = Inr ed \<and>
       fetchSchedules env (formatDate (today env)) = Inr sd \<and>
       schedules (state_of (loadData env s)) = schedulesWithNames ed sd)"
    by (rule loadData_schedules)
next
  fix f
  assume "f \<in> {handleUserTextRequest, handleChangeRequest, apply_fn, test}"
  then consider "f = handleUserTextRequest" | "f = handleChangeRequest" | "f = apply_fn"
    | "f = test" by blast
  then show "schedules (state_of (f env s)) = schedules s \<or>
      (\<exists>sd. fetchSchedules env (formatDate (today env)) = Inr sd \<and>
         schedules (state_of (f env s)) = schedulesWithNames (employees s) sd)"
  proof cases
    case 1
    with text_run_shape [of env s] show ?thesis by (auto simp: state_of_def)
  next
    case 2
    with change_run_shape [of env s] show ?thesis by (auto simp: state_of_def)
  next
    case 3
    with apply_run_shape [of env s] show ?thesis by (auto simp: state_of_def)
  next
    case 4
    with test_run_shape [of env s] show ?thesis by (auto simp: state_of_def)
  qed
qed

theorem display_names_resolved_witness:
  "employee_name (schedulesWithNames [alice] [friday, saturday] ! 0) \<noteq> [] \<and>
   employee_name (schedulesWithNames [alice] [friday, saturday] ! 1) \<noteq> [] \<and>
   (schedules (state_of (test (api0 (Inl (FetchError ''500'')) (Inr [friday]) (Inr ()))
        (home0 [0x68, 0x69]))) = schedules (home0 [0x68, 0x69]) \<or>
    schedules (state_of (test (api0 (Inl (FetchError ''500'')) (Inr [friday]) (Inr ()))
        (home0 [0x68, 0x69]))) = schedulesWithNames (employees (home0 [0x68, 0x69])) [friday])"
proof -
  let ?T = "api0 (Inl (FetchError ''500'')) (Inr [friday]) (Inr ())"
  let ?s = "home0 [0x68, 0x69]"
  let ?j = "schedulesWithNames [alice] [friday, saturday]"
  have m: "?j ! 0 \<in> set ?j" "?j ! 1 \<in> set ?j"
    by (simp_all add: schedulesWithNames_def)
  have n: "\<forall>e \<in> set [alice]. name e \<noteq> []"
    by (simp add: alice_def)
  have t: "test \<in> {handleUserTextRequest, handleChangeRequest, apply_fn, test}"
    by simp
  have f: "fetchSchedules ?T (formatDate (today ?T)) = Inr [friday]"
    by (simp add: api0_def formatDate_sample)
  note inst = display_names_resolved [of "[alice]" "[friday, saturday]" ?T ?s]
  from inst m n have 1: "employee_name (?j ! 0) \<noteq> []" "employee_name (?j ! 1) \<noteq> []"
    by blast+
  from inst t have "schedules (state_of (test ?T ?s)) = schedules ?s \<or>
      (\<exists>sd. fetchSchedules ?T (formatDate (today ?T)) = Inr sd \<and>
         schedules (state_of (test ?T ?s)) = schedulesWithNames (employees ?s) sd)"
    by blast
  with f have "schedules (state_of (test ?T ?s)) = schedules ?s \<or>
      schedules (state_of (test ?T ?s)) = schedulesWithNames (employees ?s) [friday]"
    by auto
  with 1 show ?thesis by blast
qed

section \<open>Malformed payloads\<close>

lemma decode_base_missing:
  "k \<in> {''thoughts'', ''original_query'', ''response'', ''reasoning''} \<Longrightarrow> map_of obj k = None \<Longrightarrow>
     decode_base obj = None"
  by (auto simp: decode_base_def required_string_def split: option.splits)

lemma decode_variant_None_decode:
  "decode_variant obj = None \<Longrightarrow> decode (JObject obj) = Inl MalformedResponse"
  by (simp add: decode_def)

lemma decode_sample_empty_changes:
  "decode (JObject ((''type'', JString ''schedulechange'') # (''recommendation'', JString ''approve'') #
       (''changes'', JArray []) # (''trace_id'', JNumber 7) # base_members)) =
     Inr (ScheduleChangeAnalysis base0 [] approve)"
  by (simp add: decode_def decode_variant_def decode_base_def required_string_def
      decode_changes_def decode_recommendation_def base_members_def base0_def)

lemma decode_sample_deny:
  "decode (JObject ((''type'', JString ''schedulechange'') # (''recommendation'', JString ''deny'') #
       (''changes'', JArray [JObject [(''employee_name'', JString ''Bob''),
          (''target_date'', JString ''2024-01-05''),
          (''suggested_replacement'', JString ''Carol'')]]) # base_members)) =
     Inr (ScheduleChangeAnalysis base0 [change0] deny)"
  by (simp add: decode_def decode_variant_def decode_base_def required_string_def
      decode_changes_def decode_change_def decode_recommendation_def base_members_def
      base0_def change0_def)

text \<open>
  C2. Decoding fails with \<open>MalformedResponse\<close> when the payload is not an object, when
  \<^verbatim>\<open>type\<close> is missing, when \<^verbatim>\<open>type\<close> is not the text of one of the four tags, when a
  \<^verbatim>\<open>schedulechange\<close> payload has no \<^verbatim>\<open>recommendation\<close> or one that is not the text of
  one of the three literals, when its \<^verbatim>\<open>changes\<close> is not an array (or is missing), and
  when a member of the base shape is missing: nothing is filled in by default.
\<close>

theorem malformed_payload_rejected:
  "((\<forall>obj. p \<noteq> JObject obj) \<longrightarrow> decode p = Inl MalformedResponse) \<and>
   (map_of obj ''type'' = None \<longrightarrow> decode (JObject obj) = Inl MalformedResponse) \<and>
   ((\<forall>t. map_of obj ''type'' = Some (JString t) \<longrightarrow>
        t \<notin> {''question'', ''other'', ''complaint'', ''schedulechange''}) \<longrightarrow>
      decode (JObject obj) = Inl MalformedResponse) \<and>
   (map_of obj ''type'' = Some (JString ''schedulechange'') \<longrightarrow>
    map_of obj ''recommendation'' = None \<longrightarrow>
      decode (JObject obj) = Inl MalformedResponse) \<and>
   (map_of obj ''type'' = Some (JString ''schedulechange'') \<longrightarrow>
    (\<forall>r. map_of obj ''recommendation'' = Some (JString r) \<longrightarrow>
        r \<notin> {''approve'', ''deny'', ''discuss''}) \<longrightarrow>
      decode (JObject obj) = Inl MalformedResponse) \<and>
   (map_of obj ''type'' = Some (JString ''schedulechange'') \<longrightarrow>
    (\<forall>js. map_of obj ''changes'' \<noteq> Some (JArray js)) \<longrightarrow>
      decode (JObject obj) = Inl MalformedResponse) \<and>
   (k \<in> {''thoughts'', ''original_query'', ''response'', ''reasoning''} \<longrightarrow>
    map_of obj k = None \<longrightarrow>
      decode (JObject obj) = Inl MalformedResponse)"
proof (intro conjI impI)
  assume "\<forall>obj. p \<noteq> JObject obj"
  then show "decode p = Inl MalformedResponse"
    by (cases p) (simp_all add: decode_def)
next
  assume "map_of obj ''type'' = None"
  then have "decode_variant obj = None" by (simp add: decode_variant_def)
  then show "decode (JObject obj) = Inl MalformedResponse" by (rule decode_variant_None_decode)
next
  assume "\<forall>t. map_of obj ''type'' = Some (JString t) \<longrightarrow>
        t \<notin> {''question'', ''other'', ''complaint'', ''schedulechange''}"
  then have "decode_variant obj = None"
    by (auto simp: decode_variant_def split: option.splits json.splits)
  then show "decode (JObject obj) = Inl MalformedResponse" by (rule decode_variant_None_decode)
next
  assume "map_of obj ''type'' = Some (JString ''schedulechange'')"
    "map_of obj ''recommendation'' = None"
  then have "decode_variant obj = None"
    by (simp add: decode_variant_def decode_recommendation_def split: option.splits)
  then show "decode (JObject obj) = Inl MalformedResponse" by (rule decode_variant_None_decode)
next
  assume "map_of obj ''type'' = Some (JString ''schedulechange'')"
    "\<forall>r. map_of obj ''recommendation'' = Some (JString r) \<longrightarrow>
        r \<notin> {''approve'', ''deny'', ''discuss''}"
  then have "decode_variant obj = None"
    by (auto simp: decode_variant_def decode_recommendation_def split: option.splits json.splits)
  then show "decode (JObject obj) = Inl MalformedResponse" by (rule decode_variant_None_decode)
next
  assume "map_of obj ''type'' = Some (JString ''schedulechange'')"
    "\<forall>js. map_of obj ''changes'' \<noteq> Some (JArray js)"
  then have "decode_variant obj = None"
    by (auto simp: decode_variant_def decode_changes_def split: option.splits json.splits)
  then show "decode (JObject obj) = Inl MalformedResponse" by (rule decode_variant_None_decode)
next
  assume "k \<in> {''thoughts'', ''original_query'', ''response'', ''reasoning''}" "map_of obj k = None"
  then have "decode_base obj = None" by (rule decode_base_missing)
  then have "decode_variant obj = None"
    by (simp add: decode_variant_def split: option.splits json.splits)
  then show "decode (JObject obj) = Inl MalformedResponse" by (rule decode_variant_None_decode)
qed

theorem malformed_payload_rejected_witness:
  "decode (JString ''schedulechange'') = Inl MalformedResponse \<and>
   decode (JObject base_members) = Inl MalformedResponse \<and>
   decode (JObject ((''type'', JString ''greeting'') # base_members)) = Inl MalformedResponse \<and>
   decode (JObject ((''type'', JString ''schedulechange'') # (''changes'', JArray []) #
       base_members)) = Inl MalformedResponse \<and>
   decode (JObject ((''type'', JString ''schedulechange'') # (''changes'', JArray []) #
       (''recommendation'', JString ''maybe'') # base_members)) = Inl MalformedResponse \<and>
   decode (JObject ((''type'', JString ''schedulechange'') # (''changes'', JString ''none'') #
       (''recommendation'', JString ''approve'') # base_members)) = Inl MalformedResponse \<and>
   decode (JObject [(''type'', JString ''question''), (''original_query'', JString ''hi''),
       (''response'', JString ''ok''), (''reasoning'', JString ''none'')]) =
     Inl MalformedResponse"
proof -
  let ?o2 = "base_members"
  let ?o3 = "(''type'', JString ''greeting'') # base_members"
  let ?o4 = "(''type'', JString ''schedulechange'') # (''changes'', JArray []) # base_members"
  let ?o5 = "(''type'', JString ''schedulechange'') # (''changes'', JArray []) #
       (''recommendation'', JString ''maybe'') # base_members"
  let ?o6 = "(''type'', JString ''schedulechange'') # (''changes'', JString ''none'') #
       (''recommendation'', JString ''approve'') # base_members"
  let ?o7 = "[(''type'', JString ''question''), (''original_query'', JString ''hi''),
       (''response'', JString ''ok''), (''reasoning'', JString ''none'')]"
  have h1: "\<forall>obj. JString ''schedulechange'' \<noteq> JObject obj" by simp
  have h2: "map_of ?o2 ''type'' = None" by (simp add: base_members_def)
  have h3: "\<forall>t. map_of ?o3 ''type'' = Some (JString t) \<longrightarrow>
        t \<notin> {''question'', ''other'', ''complaint'', ''schedulechange''}" by simp
  have h4: "map_of ?o4 ''type'' = Some (JString ''schedulechange'')"
    "map_of ?o4 ''recommendation'' = None" by (simp_all add: base_members_def)
  have h5: "map_of ?o5 ''type'' = Some (JString ''schedulechange'')"
    "\<forall>r. map_of ?o5 ''recommendation'' = Some (JString r) \<longrightarrow>
        r \<notin> {''approve'', ''deny'', ''discuss''}" by simp_all
  have h6: "map_of ?o6 ''type'' = Some (JString ''schedulechange'')"
    "\<forall>js. map_of ?o6 ''changes'' \<noteq> Some (JArray js)" by simp_all
  have h7: "''thoughts'' \<in> {''thoughts'', ''original_query'', ''response'', ''reasoning''}"
    "map_of ?o7 ''thoughts'' = None" by simp_all
  from malformed_payload_rejected [of "JString ''schedulechange''"] h1
  have 1: "decode (JString ''schedulechange'') = Inl MalformedResponse" by blast
  from malformed_payload_rejected [of _ ?o2] h2
  have 2: "decode (JObject ?o2) = Inl MalformedResponse" by blast
  from malformed_payload_rejected [of _ ?o3] h3
  have 3: "decode (JObject ?o3) = Inl MalformedResponse" by blast
  from malformed_payload_rejected [of _ ?o4] h4
  have 4: "decode (JObject ?o4) = Inl MalformedResponse" by blast
  from malformed_payload_rejected [of _ ?o5] h5
  have 5: "decode (JObject ?o5) = Inl MalformedResponse" by blast
  from malformed_payload_rejected [of _ ?o6] h6
  have 6: "decode (JObject ?o6) = Inl MalformedResponse" by blast
  from malformed_payload_rejected [of _ ?o7 "''thoughts''"] h7
  have 7: "decode (JObject ?o7) = Inl MalformedResponse" by blast
  from 1 2 3 4 5 6 7 show ?thesis by blast
qed


end
